theory Spec2Isabelle
  imports Main
begin

section \<open>Strings, indices and control identities\<close>

text \<open>
  Strings are lists of 8-bit characters. \<open>String.prototype.trim\<close> removes the white
  space and line terminator characters of ECMAScript at both ends; of those, the
  ones a \<open>char\<close> can hold are TAB, LF, VT, FF, CR, SPACE and NBSP.
\<close>

definition is_whitespace :: "char \<Rightarrow> bool" where
  "is_whitespace c \<longleftrightarrow>
     c \<in> {CHR 0x09, CHR 0x0A, CHR 0x0B, CHR 0x0C, CHR 0x0D, CHR 0x20, CHR 0xA0}"

definition trim :: "string \<Rightarrow> string" where
  "trim s = rev (dropWhile is_whitespace (rev (dropWhile is_whitespace s)))"

text \<open>
  A template literal renders a list index (a non-negative integer) in decimal,
  without leading zeros.
\<close>

definition digit :: "nat \<Rightarrow> char" where
  "digit d = ''0123456789'' ! d"

fun decimal :: "nat \<Rightarrow> string" where
  "decimal n = (if n < 10 then [digit n] else decimal (n div 10) @ [digit (n mod 10)])"

declare decimal.simps [simp del]

text \<open>The position-derived identities \<open>todo-${index}\<close>, \<open>delete-todo-${index}\<close>
  and \<open>edit-todo-${index}\<close>.\<close>

definition todo_id :: "nat \<Rightarrow> string" where
  "todo_id index = ''todo-'' @ decimal index"

definition delete_id :: "nat \<Rightarrow> string" where
  "delete_id index = ''delete-todo-'' @ decimal index"

definition edit_id :: "nat \<Rightarrow> string" where
  "edit_id index = ''edit-todo-'' @ decimal index"

section \<open>Arrays\<close>

text \<open>
  \<open>todos.splice(start, deleteCount)\<close> on a dense array: the elements from \<open>start\<close>
  on, at most \<open>deleteCount\<close> of them, are removed in place. A start beyond the end
  removes nothing.
\<close>

definition array_splice :: "'a list \<Rightarrow> nat \<Rightarrow> nat \<Rightarrow> 'a list" where
  "array_splice xs start deleteCount = take start xs @ drop (start + deleteCount) xs"

text \<open>\<open>prev.filter((_, i) => i !== index)\<close>: the callback sees each element with
  its index and keeps those whose index differs.\<close>

definition filter_other :: "nat \<Rightarrow> 'a list \<Rightarrow> 'a list" where
  "filter_other index prev =
     map fst (filter (\<lambda>(_, i). i \<noteq> index) (zip prev [0..<length prev]))"

text \<open>
  \<open>xs[i] = v\<close> for a JavaScript number \<open>i\<close> that holds an integer. Inside the array
  the element is replaced; at \<open>i = length\<close> the array grows by one; a negative \<open>i\<close>
  names an ordinary property and leaves elements and length alone. Beyond the end
  JavaScript makes the array sparse, which a list cannot hold: the result is
  \<open>None\<close> there.
\<close>

definition array_store :: "'a list \<Rightarrow> int \<Rightarrow> 'a \<Rightarrow> 'a list option" where
  "array_store xs i v =
     (if i < 0 then Some xs
      else if nat i < length xs then Some (xs[nat i := v])
      else if nat i = length xs then Some (xs @ [v])
      else None)"

text \<open>\<open>input.value = todos[index]\<close>: an index outside the array reads
  \<open>undefined\<close>, which the \<open>value\<close> setter turns into the string "undefined".\<close>

definition element_text :: "string list \<Rightarrow> nat \<Rightarrow> string" where
  "element_text xs index = (if index < length xs then xs ! index else ''undefined'')"

lemma digit_inj: "a < 10 \<Longrightarrow> b < 10 \<Longrightarrow> digit a = digit b \<longleftrightarrow> a = b"
proof -
  have d: "distinct ''0123456789''" by simp
  assume "a < 10" "b < 10"
  then show ?thesis unfolding digit_def using d
    by (simp add: nth_eq_iff_index_eq)
qed

lemma decimal_not_Nil: "decimal n \<noteq> []"
  by (subst decimal.simps) simp

lemma decimal_inj: "decimal n = decimal m \<Longrightarrow> n = m"
proof (induction n arbitrary: m rule: decimal.induct)
  case (1 n)
  show ?case
  proof (cases "n < 10")
    case True
    show ?thesis
    proof (cases "m < 10")
      case m: True
      from "1.prems" True m have "[digit n] = [digit m]"
        by (simp add: decimal.simps [of n] decimal.simps [of m])
      with True m show ?thesis by (simp add: digit_inj)
    next
      case m: False
      from "1.prems" True m have "[digit n] = decimal (m div 10) @ [digit (m mod 10)]"
        by (simp add: decimal.simps [of n] decimal.simps [of m])
      then have "decimal (m div 10) = []" by simp
      then show ?thesis by (simp add: decimal_not_Nil)
    qed
  next
    case False
    show ?thesis
    proof (cases "m < 10")
      case m: True
      from "1.prems" False m have "decimal (n div 10) @ [digit (n mod 10)] = [digit m]"
        by (simp add: decimal.simps [of n] decimal.simps [of m])
      then have "decimal (n div 10) = []" by simp
      then show ?thesis by (simp add: decimal_not_Nil)
    next
      case m: False
      from "1.prems" False m
      have "decimal (n div 10) @ [digit (n mod 10)] = decimal (m div 10) @ [digit (m mod 10)]"
        by (simp add: decimal.simps [of n] decimal.simps [of m])
      then have a: "decimal (n div 10) = decimal (m div 10)"
        and b: "digit (n mod 10) = digit (m mod 10)" by simp_all
      from "1.IH" [OF False a] have "n div 10 = m div 10" .
      moreover from b have "n mod 10 = m mod 10" by (simp add: digit_inj)
      ultimately show ?thesis by (metis div_mult_mod_eq)
    qed
  qed
qed

lemma delete_id_eq [simp]: "delete_id i = delete_id j \<longleftrightarrow> i = j"
  by (auto simp: delete_id_def dest: decimal_inj)

lemma edit_id_eq [simp]: "edit_id i = edit_id j \<longleftrightarrow> i = j"
  by (auto simp: edit_id_def dest: decimal_inj)

lemma ids_distinct [simp]:
  "delete_id i \<noteq> edit_id j" "edit_id j \<noteq> delete_id i"
  "delete_id i \<noteq> ''add-todo-button''" "edit_id i \<noteq> ''add-todo-button''"
  "''add-todo-button'' \<noteq> delete_id i" "''add-todo-button'' \<noteq> edit_id i"
  by (simp_all add: delete_id_def edit_id_def)

lemma dropWhile_all: "(\<forall>x\<in>set (dropWhile P xs). P x) \<longleftrightarrow> (\<forall>x\<in>set xs. P x)"
  by (induction xs) auto

lemma trim_empty_iff: "trim s = [] \<longleftrightarrow> (\<forall>c\<in>set s. is_whitespace c)"
  by (simp add: trim_def dropWhile_eq_Nil_conv dropWhile_all)

lemma array_splice_one: "array_splice xs i (Suc 0) = take i xs @ drop (Suc i) xs"
  by (simp add: array_splice_def)

lemma filter_other_eq: "filter_other i xs = take i xs @ drop (Suc i) xs"
proof (induction xs rule: rev_induct)
  case Nil
  then show ?case by (simp add: filter_other_def)
next
  case (snoc x xs)
  have z: "zip (xs @ [x]) [0..<length (xs @ [x])] = zip xs [0..<length xs] @ [(x, length xs)]"
    by simp
  consider "i < length xs" | "i = length xs" | "length xs < i" by linarith
  then show ?case
  proof cases
    case 1
    with snoc show ?thesis unfolding filter_other_def z by simp
  next
    case 2
    with snoc show ?thesis unfolding filter_other_def z by simp
  next
    case 3
    with snoc show ?thesis unfolding filter_other_def z by simp
  qed
qed

section \<open>The page as the click handlers see it\<close>

text \<open>
  The handlers read and write one thing of the document: the \<open>value\<close> of the element
  \<open>#todo-input\<close>. Every render builds a new such element, so element identity
  matters: a handler fetches the element once, at its start, and may write to it
  after a render has replaced it in the document. The input elements therefore live
  in a store, addressed in the order of their creation; \<open>attached\<close> is the address
  of the one that \<open>document.querySelector('#todo-input')\<close> finds.
\<close>

record page =
  inputs :: "nat \<Rightarrow> string"
  attached :: nat

text \<open>
  \<open>render()\<close> inside a handler. The listener is registered on \<open>#root\<close>, so that
  element exists whenever a click is handled and render takes its success path
  (section "The Render Loop" below): the content of \<open>#root\<close> is discarded and the
  tree of \<open>todoComponent()\<close> is attached. Its \<open>#todo-input\<close> is a new element,
  created without a value, which takes the place of the old one.
\<close>

definition render :: "'a page_scheme \<Rightarrow> 'a page_scheme" where
  "render s = s\<lparr>inputs := (inputs s)(Suc (attached s) := []), attached := Suc (attached s)\<rparr>"

text \<open>What the user sees in the input field, and typing into it.\<close>

definition input_field :: "'a page_scheme \<Rightarrow> string" where
  "input_field s = inputs s (attached s)"

definition type_text :: "string \<Rightarrow> 'a page_scheme \<Rightarrow> 'a page_scheme" where
  "type_text v s = s\<lparr>inputs := (inputs s)(attached s := v)\<rparr>"

section \<open>The iterations with a global array (src/index.js and the first program of part_002)\<close>

record todo_app = page +
  todos :: "string list"

text \<open>
  \<open>todos.forEach(callback)\<close> on the array that the callback itself mutates: the
  length is read once, before the first call; for each index below it, in order,
  the callback runs if the array still has that index.
\<close>

definition forEach ::
  "(nat \<Rightarrow> 'a todo_app_scheme \<Rightarrow> 'a todo_app_scheme) \<Rightarrow> 'a todo_app_scheme \<Rightarrow> 'a todo_app_scheme" where
  "forEach callback s =
     fold (\<lambda>index s. if index < length (todos s) then callback index s else s)
       [0..<length (todos s)] s"

text \<open>The click listener; \<open>target\<close> is \<open>event.target.id\<close>. Both programs have the
  same listener, line for line.\<close>

definition array_delete :: "string \<Rightarrow> nat \<Rightarrow> todo_app \<Rightarrow> todo_app" where
  "array_delete target index s =
     (if target = delete_id index
      then render (s\<lparr>todos := array_splice (todos s) index 1\<rparr>)
      else s)"

definition array_click :: "string \<Rightarrow> todo_app \<Rightarrow> todo_app" where
  "array_click target s =
     (let s1 =
        (if target = ''add-todo-button'' then
           (let input = attached s;
                pushed = s\<lparr>todos := todos s @ [trim (inputs s input)]\<rparr>;
                cleared = pushed\<lparr>inputs := (inputs pushed)(input := [])\<rparr>
            in render cleared)
         else s)
      in forEach (array_delete target) s1)"

section \<open>The iteration with a state object (the second program of part_002)\<close>

record edit_app = todo_app +
  editIndex :: int

text \<open>The add/update branch. \<open>None\<close>: the store \<open>todos[state.editIndex] = todoText\<close>
  would make the array sparse.\<close>

definition object_submit :: "nat \<Rightarrow> edit_app \<Rightarrow> edit_app option" where
  "object_submit input s =
     (let todoText = trim (inputs s input) in
      map_option (\<lambda>s1. render (s1\<lparr>inputs := (inputs s1)(input := [])\<rparr>))
        (if todoText \<noteq> [] then
           (if editIndex s \<noteq> - 1 then
              map_option (\<lambda>stored. s\<lparr>todos := stored, editIndex := - 1\<rparr>)
                (array_store (todos s) (editIndex s) todoText)
            else Some (s\<lparr>todos := todos s @ [todoText]\<rparr>))
         else Some s))"

text \<open>The body of the \<open>forEach\<close> callback: the delete branch, then the edit branch.\<close>

definition object_delete :: "nat \<Rightarrow> nat \<Rightarrow> edit_app \<Rightarrow> edit_app" where
  "object_delete input index s =
     (let spliced = s\<lparr>todos := array_splice (todos s) index 1\<rparr>;
          adjusted =
            (if editIndex spliced = int index then
               spliced\<lparr>editIndex := - 1, inputs := (inputs spliced)(input := [])\<rparr>
             else if editIndex spliced > int index then
               spliced\<lparr>editIndex := editIndex spliced - 1\<rparr>
             else spliced)
      in render adjusted)"

definition object_edit :: "nat \<Rightarrow> nat \<Rightarrow> edit_app \<Rightarrow> edit_app" where
  "object_edit input index s =
     render (s\<lparr>editIndex := int index,
               inputs := (inputs s)(input := element_text (todos s) index)\<rparr>)"

definition object_row :: "string \<Rightarrow> nat \<Rightarrow> nat \<Rightarrow> edit_app \<Rightarrow> edit_app" where
  "object_row target input index s =
     (let s1 = (if target = delete_id index then object_delete input index s else s)
      in if target = edit_id index then object_edit input index s1 else s1)"

definition object_click :: "string \<Rightarrow> edit_app \<Rightarrow> edit_app option" where
  "object_click target s =
     (let input = attached s in
      map_option (forEach (object_row target input))
        (if target = ''add-todo-button'' then object_submit input s else Some s))"

section \<open>The iteration with useState (part_001)\<close>

text \<open>
  The two containers of the program, \<open>useState([], render)\<close> and
  \<open>useState(-1, render)\<close>, are the fields \<open>todos\<close> and \<open>editIndex\<close>. An argument of
  a setter is a plain value or a function from the previous value to the next one
  (\<open>typeof newVal === 'function'\<close>); the setter stores the next value and then
  calls \<open>render\<close>.
\<close>

datatype 'a newVal = Plain 'a | Updater "'a \<Rightarrow> 'a"

fun next_value :: "'a newVal \<Rightarrow> 'a \<Rightarrow> 'a" where
  "next_value (Updater f) current = f current"
| "next_value (Plain v) current = v"

definition getTodos :: "edit_app \<Rightarrow> string list" where
  "getTodos s = todos s"

definition getEditIndex :: "edit_app \<Rightarrow> int" where
  "getEditIndex s = editIndex s"

definition setTodos :: "string list newVal \<Rightarrow> edit_app \<Rightarrow> edit_app" where
  "setTodos newVal s = render (s\<lparr>todos := next_value newVal (todos s)\<rparr>)"

definition setEditIndex :: "int newVal \<Rightarrow> edit_app \<Rightarrow> edit_app" where
  "setEditIndex newVal s = render (s\<lparr>editIndex := next_value newVal (editIndex s)\<rparr>)"

text \<open>
  The add/update branch. The updater of the update case copies the previous array
  and stores into the copy at \<open>getEditIndex()\<close>; \<open>None\<close> where that store would
  make the copy sparse.
\<close>

definition hook_submit :: "nat \<Rightarrow> edit_app \<Rightarrow> edit_app option" where
  "hook_submit input s =
     (let todoText = trim (inputs s input) in
      map_option (\<lambda>s1. s1\<lparr>inputs := (inputs s1)(input := [])\<rparr>)
        (if todoText \<noteq> [] then
           (if getEditIndex s \<noteq> - 1 then
              map_option
                (\<lambda>updatedTodos. setEditIndex (Plain (- 1)) (setTodos (Updater (\<lambda>prev. updatedTodos)) s))
                (array_store (getTodos s) (getEditIndex s) todoText)
            else Some (setTodos (Updater (\<lambda>prev. prev @ [todoText])) s))
         else Some s))"

definition hook_delete :: "nat \<Rightarrow> nat \<Rightarrow> edit_app \<Rightarrow> edit_app" where
  "hook_delete input index s =
     (let filtered = setTodos (Updater (filter_other index)) s in
      if getEditIndex filtered = int index then
        (let reset = setEditIndex (Plain (- 1)) filtered
         in reset\<lparr>inputs := (inputs reset)(input := [])\<rparr>)
      else if getEditIndex filtered > int index then
        setEditIndex (Updater (\<lambda>prev. prev - 1)) filtered
      else filtered)"

definition hook_edit :: "nat \<Rightarrow> nat \<Rightarrow> edit_app \<Rightarrow> edit_app" where
  "hook_edit input index s =
     (let selected = setEditIndex (Plain (int index)) s
      in selected\<lparr>inputs := (inputs selected)(input := element_text (getTodos selected) index)\<rparr>)"

definition hook_row :: "string \<Rightarrow> nat \<Rightarrow> nat \<Rightarrow> edit_app \<Rightarrow> edit_app" where
  "hook_row target input index s =
     (let s1 = (if target = delete_id index then hook_delete input index s else s)
      in if target = edit_id index then hook_edit input index s1 else s1)"

text \<open>\<open>getTodos().forEach(...)\<close> walks the array that was current when the loop
  began; the setters replace the stored array and never change that one, so every
  index below its length is visited.\<close>

definition hook_click :: "string \<Rightarrow> edit_app \<Rightarrow> edit_app option" where
  "hook_click target s =
     (let input = attached s in
      map_option (\<lambda>s1. fold (hook_row target input) [0..<length (getTodos s1)] s1)
        (if target = ''add-todo-button'' then hook_submit input s else Some s))"

section \<open>The markup iteration (the script of part_000)\<close>

text \<open>
  \<open>window.addTodo\<close> keeps no array: each item is a \<open>li\<close> fragment appended to the
  markup of \<open>#todo-list\<close>. \<open>list_texts\<close> holds the text put into each fragment,
  \<open>field\<close> the value of \<open>#todo-input\<close> (never re-created here), \<open>alerts\<close> the
  messages shown.
\<close>

record markup_page =
  list_texts :: "string list"
  field :: string
  alerts :: "string list"

definition addTodo :: "markup_page \<Rightarrow> markup_page" where
  "addTodo s =
     (let todoText = trim (field s);
          s1 = (if todoText = [] then s\<lparr>alerts := alerts s @ [''Please enter a todo item.'']\<rparr> else s);
          s2 = s1\<lparr>list_texts := list_texts s1 @ [todoText]\<rparr>
      in s2\<lparr>field := []\<rparr>)"

section \<open>What one click does\<close>

text \<open>A loop over indices whose body acts at one index only, or at none.\<close>

lemma fold_only:
  assumes "\<And>k s. k \<noteq> i \<Longrightarrow> f k s = s"
  shows "fold f [0..<n] s = (if i < n then f i s else s)"
proof (induction n)
  case 0
  show ?case by simp
next
  case (Suc n)
  show ?case
  proof (cases "i = n")
    case True
    with Suc show ?thesis by simp
  next
    case False
    with Suc assms [of n] show ?thesis by (simp add: less_Suc_eq)
  qed
qed

lemma fold_none:
  assumes "\<And>k s. f k s = s"
  shows "fold f ks s = s"
  by (induction ks) (simp_all add: assms)

lemma forEach_only:
  assumes "\<And>k s. k \<noteq> i \<Longrightarrow> callback k s = s"
  shows "forEach callback s = (if i < length (todos s) then callback i s else s)"
  unfolding forEach_def
  by (subst fold_only [where i = i]) (simp_all add: assms)

lemma forEach_none:
  assumes "\<And>k s. callback k s = s"
  shows "forEach callback s = s"
  unfolding forEach_def by (rule fold_none) (simp add: assms)

lemma array_click_add:
  "array_click ''add-todo-button'' s =
     render (s\<lparr>todos := todos s @ [trim (inputs s (attached s))],
               inputs := (inputs s)(attached s := [])\<rparr>)"
  unfolding array_click_def
  by (simp add: Let_def forEach_none array_delete_def)

lemma array_click_delete:
  "array_click (delete_id i) s =
     (if i < length (todos s) then render (s\<lparr>todos := array_splice (todos s) i 1\<rparr>) else s)"
  unfolding array_click_def
  by (simp add: Let_def forEach_only [where i = i] array_delete_def)

lemma object_click_add:
  "object_click ''add-todo-button'' s = object_submit (attached s) s"
  unfolding object_click_def
  by (simp add: Let_def forEach_none object_row_def option.map_ident cong: option.map_cong)

lemma object_click_delete:
  "object_click (delete_id i) s =
     Some (if i < length (todos s) then object_delete (attached s) i s else s)"
  unfolding object_click_def
  by (simp add: Let_def forEach_only [where i = i] object_row_def)

lemma object_click_edit:
  "object_click (edit_id i) s =
     Some (if i < length (todos s) then object_edit (attached s) i s else s)"
  unfolding object_click_def
  by (simp add: Let_def forEach_only [where i = i] object_row_def)

lemma object_click_other:
  assumes "target \<noteq> ''add-todo-button''"
    and "\<And>i. target \<noteq> delete_id i" and "\<And>i. target \<noteq> edit_id i"
  shows "object_click target s = Some s"
  unfolding object_click_def using assms
  by (simp add: Let_def forEach_none object_row_def)

lemma hook_click_add:
  "hook_click ''add-todo-button'' s = hook_submit (attached s) s"
  unfolding hook_click_def
  by (simp add: Let_def fold_none hook_row_def option.map_ident cong: option.map_cong)

lemma hook_click_delete:
  "hook_click (delete_id i) s =
     Some (if i < length (todos s) then hook_delete (attached s) i s else s)"
  unfolding hook_click_def
  by (simp add: Let_def fold_only [where i = i] hook_row_def getTodos_def)

lemma hook_click_edit:
  "hook_click (edit_id i) s =
     Some (if i < length (todos s) then hook_edit (attached s) i s else s)"
  unfolding hook_click_def
  by (simp add: Let_def fold_only [where i = i] hook_row_def getTodos_def)

lemma hook_click_other:
  assumes "target \<noteq> ''add-todo-button''"
    and "\<And>i. target \<noteq> delete_id i" and "\<And>i. target \<noteq> edit_id i"
  shows "hook_click target s = Some s"
  unfolding hook_click_def using assms
  by (simp add: Let_def fold_none hook_row_def)

text \<open>The add/update branch, case by case.\<close>

lemma array_store_inside:
  "0 \<le> i \<Longrightarrow> i < int (length xs) \<Longrightarrow> array_store xs i v = Some (xs[nat i := v])"
  by (simp add: array_store_def nat_less_iff)

lemma object_submit_blank:
  "trim (inputs s input) = [] \<Longrightarrow>
   object_submit input s = Some (render (s\<lparr>inputs := (inputs s)(input := [])\<rparr>))"
  by (simp add: object_submit_def)

lemma object_submit_append:
  "trim (inputs s input) \<noteq> [] \<Longrightarrow> editIndex s = - 1 \<Longrightarrow>
   object_submit input s =
     Some (render (s\<lparr>todos := todos s @ [trim (inputs s input)],
                     inputs := (inputs s)(input := [])\<rparr>))"
  by (simp add: object_submit_def)

lemma object_submit_update:
  "trim (inputs s input) \<noteq> [] \<Longrightarrow> 0 \<le> editIndex s \<Longrightarrow>
   editIndex s < int (length (todos s)) \<Longrightarrow>
   object_submit input s =
     Some (render (s\<lparr>todos := (todos s)[nat (editIndex s) := trim (inputs s input)],
                     editIndex := - 1, inputs := (inputs s)(input := [])\<rparr>))"
  by (simp add: object_submit_def array_store_inside)

lemma hook_submit_blank:
  "trim (inputs s input) = [] \<Longrightarrow>
   hook_submit input s = Some (s\<lparr>inputs := (inputs s)(input := [])\<rparr>)"
  by (simp add: hook_submit_def)

lemma hook_submit_append:
  "trim (inputs s input) \<noteq> [] \<Longrightarrow> editIndex s = - 1 \<Longrightarrow>
   hook_submit input s =
     Some (s\<lparr>todos := todos s @ [trim (inputs s input)],
             inputs := (inputs s)(Suc (attached s) := [], input := []),
             attached := Suc (attached s)\<rparr>)"
  by (simp add: hook_submit_def getEditIndex_def setTodos_def render_def)

lemma hook_submit_update:
  "trim (inputs s input) \<noteq> [] \<Longrightarrow> 0 \<le> editIndex s \<Longrightarrow>
   editIndex s < int (length (todos s)) \<Longrightarrow>
   hook_submit input s =
     Some (s\<lparr>todos := (todos s)[nat (editIndex s) := trim (inputs s input)],
             editIndex := - 1,
             inputs := (inputs s)(Suc (attached s) := [], Suc (Suc (attached s)) := [], input := []),
             attached := Suc (Suc (attached s))\<rparr>)"
  by (simp add: hook_submit_def array_store_inside getEditIndex_def getTodos_def setTodos_def
      setEditIndex_def render_def)

text \<open>The delete and edit branches, field by field.\<close>

lemma input_field_render [simp]: "input_field (render s) = []"
  by (simp add: input_field_def render_def)

lemma todos_object_delete [simp]:
  "todos (object_delete input i s) = take i (todos s) @ drop (Suc i) (todos s)"
  by (simp add: object_delete_def Let_def render_def array_splice_one)

lemma editIndex_object_delete [simp]:
  "editIndex (object_delete input i s) =
     (if editIndex s = int i then - 1
      else if editIndex s > int i then editIndex s - 1 else editIndex s)"
  by (simp add: object_delete_def Let_def render_def)

lemma input_field_object_delete [simp]: "input_field (object_delete input i s) = []"
  by (simp add: object_delete_def Let_def)

lemma todos_object_edit [simp]: "todos (object_edit input i s) = todos s"
  by (simp add: object_edit_def render_def)

lemma editIndex_object_edit [simp]: "editIndex (object_edit input i s) = int i"
  by (simp add: object_edit_def render_def)

lemma todos_hook_delete [simp]:
  "todos (hook_delete input i s) = take i (todos s) @ drop (Suc i) (todos s)"
  by (simp add: hook_delete_def Let_def setTodos_def setEditIndex_def getEditIndex_def
      render_def filter_other_eq)

lemma editIndex_hook_delete [simp]:
  "editIndex (hook_delete input i s) =
     (if editIndex s = int i then - 1
      else if editIndex s > int i then editIndex s - 1 else editIndex s)"
  by (simp add: hook_delete_def Let_def setTodos_def setEditIndex_def getEditIndex_def render_def)

lemma input_field_hook_delete:
  "input_field (hook_delete (attached s) i s) = []"
  by (simp add: hook_delete_def Let_def setTodos_def setEditIndex_def getEditIndex_def
      render_def input_field_def)

lemma todos_hook_edit [simp]: "todos (hook_edit input i s) = todos s"
  by (simp add: hook_edit_def Let_def setEditIndex_def render_def)

lemma editIndex_hook_edit [simp]: "editIndex (hook_edit input i s) = int i"
  by (simp add: hook_edit_def Let_def setEditIndex_def render_def)

section \<open>The Edit Cursor and the Todo List under clicks\<close>

text \<open>The cursor is the sentinel or an index of the list.\<close>

definition cursor_ok :: "edit_app \<Rightarrow> bool" where
  "cursor_ok s \<longleftrightarrow>
     editIndex s = - 1 \<or> (0 \<le> editIndex s \<and> editIndex s < int (length (todos s)))"

text \<open>\<open>after\<close> is \<open>before\<close> without its item at \<open>i\<close>: one item fewer, the items
  before \<open>i\<close> in place, the items behind \<open>i\<close> one position to the left.\<close>

definition removed_at :: "nat \<Rightarrow> 'a list \<Rightarrow> 'a list \<Rightarrow> bool" where
  "removed_at i before after \<longleftrightarrow>
     length after + 1 = length before \<and>
     (\<forall>k\<in>set [0..<i]. after ! k = before ! k) \<and>
     (\<forall>k\<in>set [i..<length after]. after ! k = before ! (k + 1))"

lemma removed_at_take_drop:
  "i < length xs \<Longrightarrow> removed_at i xs (take i xs @ drop (Suc i) xs)"
  by (auto simp: removed_at_def nth_append min_def)

text \<open>Sample states: three items with the second one being edited and a new text
  typed in; the same with only blanks typed in; an add-only list with blanks typed
  in.\<close>

definition errands :: edit_app where
  "errands = \<lparr>inputs = (\<lambda>_. ''Buy bread''), attached = 0,
     todos = [''Buy milk'', ''Walk dog'', ''Call home''], editIndex = 1\<rparr>"

definition blank_form :: edit_app where
  "blank_form = errands\<lparr>inputs := (\<lambda>_. ''   '')\<rparr>"

definition blank_list :: todo_app where
  "blank_list = \<lparr>inputs = (\<lambda>_. ''   ''), attached = 0, todos = [''Buy milk'']\<rparr>"

lemma trim_blanks [simp]: "trim ''   '' = []"
  by (simp add: trim_def is_whitespace_def)

lemma trim_Buy_bread [simp]: "trim ''Buy bread'' = ''Buy bread''"
  by (simp add: trim_def is_whitespace_def)

text \<open>
  Claim C1, as the code has it. In the two iterations with an Edit Cursor (the
  state object and useState), a click on the add/update control whose input text
  trims to the empty string appends nothing and overwrites nothing: Todo List and
  Edit Cursor stay as they are. The two add-only iterations have no such check:
  the click appends the trimmed text whatever it is. (By \<open>trim_empty_iff\<close> the
  text trims to the empty string exactly when it is empty or all white space.)
\<close>

theorem blank_submit_rejected:
  fixes s :: edit_app and t :: todo_app
  assumes "trim (input_field s) = []"
  shows "(\<exists>s'. object_click ''add-todo-button'' s = Some s' \<and>
            todos s' = todos s \<and> editIndex s' = editIndex s) \<and>
         (\<exists>s'. hook_click ''add-todo-button'' s = Some s' \<and>
            todos s' = todos s \<and> editIndex s' = editIndex s) \<and>
         todos (array_click ''add-todo-button'' t) = todos t @ [trim (input_field t)]"
proof (intro conjI)
  from assms have blank: "trim (inputs s (attached s)) = []"
    by (simp add: input_field_def)
  show "\<exists>s'. object_click ''add-todo-button'' s = Some s' \<and>
      todos s' = todos s \<and> editIndex s' = editIndex s"
    by (simp add: object_click_add object_submit_blank [OF blank] render_def)
  show "\<exists>s'. hook_click ''add-todo-button'' s = Some s' \<and>
      todos s' = todos s \<and> editIndex s' = editIndex s"
    by (simp add: hook_click_add hook_submit_blank [OF blank])
  show "todos (array_click ''add-todo-button'' t) = todos t @ [trim (input_field t)]"
    by (simp add: array_click_add render_def input_field_def)
qed

theorem blank_submit_rejected_witness:
  "trim (input_field blank_form) = [] \<and>
   (\<exists>s'. object_click ''add-todo-button'' blank_form = Some s' \<and>
      todos s' = [''Buy milk'', ''Walk dog'', ''Call home''] \<and> editIndex s' = 1) \<and>
   (\<exists>s'. hook_click ''add-todo-button'' blank_form = Some s' \<and>
      todos s' = [''Buy milk'', ''Walk dog'', ''Call home''] \<and> editIndex s' = 1) \<and>
   todos (array_click ''add-todo-button'' blank_list) = [''Buy milk'', []]"
proof -
  have blank: "trim (input_field blank_form) = []"
    by (simp add: blank_form_def errands_def input_field_def)
  from blank blank_submit_rejected [OF blank, of blank_list] show ?thesis
    by (simp add: blank_form_def errands_def blank_list_def input_field_def)
qed

text \<open>The claim as written fails on the add-only iterations: with only blanks in
  the input field the click on the add control appends an empty item.\<close>

theorem blank_submit_appends:
  "trim (input_field blank_list) = [] \<and>
   todos (array_click ''add-todo-button'' blank_list) = todos blank_list @ [[]] \<and>
   todos (array_click ''add-todo-button'' blank_list) \<noteq> todos blank_list"
  by (simp add: array_click_add render_def blank_list_def input_field_def)

text \<open>The markup iteration shows its alert on such a click and appends the empty
  item all the same: nothing ends \<open>addTodo\<close> after the alert.\<close>

lemma addTodo_blank:
  assumes "trim (field m) = []"
  shows "list_texts (addTodo m) = list_texts m @ [[]] \<and>
         alerts (addTodo m) = alerts m @ [''Please enter a todo item.'']"
  using assms by (simp add: addTodo_def Let_def)

text \<open>
  Claim C2. Deleting the item at index \<open>i\<close> while the Edit Cursor is \<open>j\<close>: for
  \<open>j = i\<close> the cursor becomes the sentinel and the input field is empty; for
  \<open>j > i\<close> the cursor becomes \<open>j - 1\<close>; for \<open>j < i\<close> it stays \<open>j\<close>. Both iterations
  with a cursor.
\<close>

theorem delete_adjusts_cursor:
  assumes "i < length (todos s)"
  shows "(\<exists>s'. object_click (delete_id i) s = Some s' \<and>
            (editIndex s = int i \<longrightarrow> editIndex s' = - 1 \<and> input_field s' = []) \<and>
            (editIndex s > int i \<longrightarrow> editIndex s' = editIndex s - 1) \<and>
            (editIndex s < int i \<longrightarrow> editIndex s' = editIndex s)) \<and>
         (\<exists>s'. hook_click (delete_id i) s = Some s' \<and>
            (editIndex s = int i \<longrightarrow> editIndex s' = - 1 \<and> input_field s' = []) \<and>
            (editIndex s > int i \<longrightarrow> editIndex s' = editIndex s - 1) \<and>
            (editIndex s < int i \<longrightarrow> editIndex s' = editIndex s))"
proof
  from assms have "object_click (delete_id i) s = Some (object_delete (attached s) i s)"
    by (simp add: object_click_delete)
  then show "\<exists>s'. object_click (delete_id i) s = Some s' \<and>
            (editIndex s = int i \<longrightarrow> editIndex s' = - 1 \<and> input_field s' = []) \<and>
            (editIndex s > int i \<longrightarrow> editIndex s' = editIndex s - 1) \<and>
            (editIndex s < int i \<longrightarrow> editIndex s' = editIndex s)"
    by simp
  from assms have "hook_click (delete_id i) s = Some (hook_delete (attached s) i s)"
    by (simp add: hook_click_delete)
  then show "\<exists>s'. hook_click (delete_id i) s = Some s' \<and>
            (editIndex s = int i \<longrightarrow> editIndex s' = - 1 \<and> input_field s' = []) \<and>
            (editIndex s > int i \<longrightarrow> editIndex s' = editIndex s - 1) \<and>
            (editIndex s < int i \<longrightarrow> editIndex s' = editIndex s)"
    by (simp add: input_field_hook_delete)
qed

theorem delete_adjusts_cursor_witness:
  "(\<exists>s'. object_click (delete_id 1) errands = Some s' \<and> editIndex s' = - 1 \<and> input_field s' = []) \<and>
   (\<exists>s'. hook_click (delete_id 1) errands = Some s' \<and> editIndex s' = - 1 \<and> input_field s' = []) \<and>
   (\<exists>s'. object_click (delete_id 0) errands = Some s' \<and> editIndex s' = 0) \<and>
   (\<exists>s'. hook_click (delete_id 0) errands = Some s' \<and> editIndex s' = 0) \<and>
   (\<exists>s'. object_click (delete_id 2) errands = Some s' \<and> editIndex s' = 1) \<and>
   (\<exists>s'. hook_click (delete_id 2) errands = Some s' \<and> editIndex s' = 1)"
  using delete_adjusts_cursor [of 1 errands] delete_adjusts_cursor [of 0 errands]
    delete_adjusts_cursor [of 2 errands]
  by (simp add: errands_def)

text \<open>
  Claim C3. A click on the add/update control with non-empty trimmed text while
  the Edit Cursor is at index \<open>i\<close>: the item at \<open>i\<close> gets the trimmed text, the
  cursor is reset to the sentinel, the list keeps its length and every other item
  keeps its text. Both iterations with a cursor.
\<close>

theorem update_replaces_item:
  assumes "editIndex s = int i" and "i < length (todos s)"
    and "trim (input_field s) \<noteq> []"
  shows "(\<exists>s'. object_click ''add-todo-button'' s = Some s' \<and>
            todos s' = (todos s)[i := trim (input_field s)] \<and>
            todos s' ! i = trim (input_field s) \<and>
            editIndex s' = - 1 \<and>
            length (todos s') = length (todos s) \<and>
            (\<forall>k<length (todos s). k \<noteq> i \<longrightarrow> todos s' ! k = todos s ! k)) \<and>
         (\<exists>s'. hook_click ''add-todo-button'' s = Some s' \<and>
            todos s' = (todos s)[i := trim (input_field s)] \<and>
            todos s' ! i = trim (input_field s) \<and>
            editIndex s' = - 1 \<and>
            length (todos s') = length (todos s) \<and>
            (\<forall>k<length (todos s). k \<noteq> i \<longrightarrow> todos s' ! k = todos s ! k))"
proof
  from assms have typed: "trim (inputs s (attached s)) \<noteq> []"
    and low: "0 \<le> editIndex s" and high: "editIndex s < int (length (todos s))"
    and pos: "nat (editIndex s) = i"
    by (simp_all add: input_field_def)
  from assms(2) show "\<exists>s'. object_click ''add-todo-button'' s = Some s' \<and>
            todos s' = (todos s)[i := trim (input_field s)] \<and>
            todos s' ! i = trim (input_field s) \<and>
            editIndex s' = - 1 \<and>
            length (todos s') = length (todos s) \<and>
            (\<forall>k<length (todos s). k \<noteq> i \<longrightarrow> todos s' ! k = todos s ! k)"
    by (simp add: object_click_add object_submit_update [OF typed low high] pos render_def
        input_field_def)
  from assms(2) show "\<exists>s'. hook_click ''add-todo-button'' s = Some s' \<and>
            todos s' = (todos s)[i := trim (input_field s)] \<and>
            todos s' ! i = trim (input_field s) \<and>
            editIndex s' = - 1 \<and>
            length (todos s') = length (todos s) \<and>
            (\<forall>k<length (todos s). k \<noteq> i \<longrightarrow> todos s' ! k = todos s ! k)"
    by (simp add: hook_click_add hook_submit_update [OF typed low high] pos input_field_def)
qed

theorem update_replaces_item_witness:
  "editIndex errands = int 1 \<and> 1 < length (todos errands) \<and> trim (input_field errands) \<noteq> [] \<and>
   (\<exists>s'. object_click ''add-todo-button'' errands = Some s' \<and>
      todos s' = [''Buy milk'', ''Buy bread'', ''Call home''] \<and> editIndex s' = - 1) \<and>
   (\<exists>s'. hook_click ''add-todo-button'' errands = Some s' \<and>
      todos s' = [''Buy milk'', ''Buy bread'', ''Call home''] \<and> editIndex s' = - 1)"
proof -
  have a: "editIndex errands = int 1" and b: "1 < length (todos errands)"
    and c: "trim (input_field errands) \<noteq> []"
    by (simp_all add: errands_def input_field_def)
  from update_replaces_item [OF a b c] a b c show ?thesis
    by (simp add: errands_def input_field_def) blast
qed

text \<open>
  Claim C4. A click on the delete control of a valid index \<open>i\<close> removes exactly
  the item that was at \<open>i\<close>: one item fewer, the items before \<open>i\<close> unchanged, the
  items behind \<open>i\<close> one position to the left. This holds for the handlers that
  splice the array inside its own \<open>forEach\<close> (both add-only programs and the state
  object) and for the useState handler that filters.
\<close>

theorem delete_removes_exactly:
  fixes s :: edit_app and t :: todo_app
  assumes "i < length (todos s)" and "j < length (todos t)"
  shows "(\<exists>s'. object_click (delete_id i) s = Some s' \<and>
            todos s' = take i (todos s) @ drop (Suc i) (todos s) \<and>
            removed_at i (todos s) (todos s')) \<and>
         (\<exists>s'. hook_click (delete_id i) s = Some s' \<and>
            todos s' = take i (todos s) @ drop (Suc i) (todos s) \<and>
            removed_at i (todos s) (todos s')) \<and>
         todos (array_click (delete_id j) t) = take j (todos t) @ drop (Suc j) (todos t) \<and>
         removed_at j (todos t) (todos (array_click (delete_id j) t))"
proof (intro conjI)
  from assms(1) show "\<exists>s'. object_click (delete_id i) s = Some s' \<and>
            todos s' = take i (todos s) @ drop (Suc i) (todos s) \<and>
            removed_at i (todos s) (todos s')"
    by (simp add: object_click_delete removed_at_take_drop)
  from assms(1) show "\<exists>s'. hook_click (delete_id i) s = Some s' \<and>
            todos s' = take i (todos s) @ drop (Suc i) (todos s) \<and>
            removed_at i (todos s) (todos s')"
    by (simp add: hook_click_delete removed_at_take_drop)
  from assms(2)
  show spliced: "todos (array_click (delete_id j) t) = take j (todos t) @ drop (Suc j) (todos t)"
    by (simp add: array_click_delete render_def array_splice_one)
  from assms(2) show "removed_at j (todos t) (todos (array_click (delete_id j) t))"
    unfolding spliced by (rule removed_at_take_drop)
qed

definition chores :: todo_app where
  "chores = \<lparr>inputs = (\<lambda>_. []), attached = 0, todos = [''Sweep'', ''Dust'', ''Mop'']\<rparr>"

theorem delete_removes_exactly_witness:
  "1 < length (todos errands) \<and> 0 < length (todos chores) \<and>
   (\<exists>s'. object_click (delete_id 1) errands = Some s' \<and> todos s' = [''Buy milk'', ''Call home'']) \<and>
   (\<exists>s'. hook_click (delete_id 1) errands = Some s' \<and> todos s' = [''Buy milk'', ''Call home'']) \<and>
   todos (array_click (delete_id 0) chores) = [''Dust'', ''Mop'']"
proof -
  have a: "1 < length (todos errands)" and b: "0 < length (todos chores)"
    by (simp_all add: errands_def chores_def)
  from delete_removes_exactly [OF a b] a b show ?thesis
    by (auto simp add: errands_def chores_def)
qed

section \<open>Sequences of user actions\<close>

text \<open>
  The user types into the input field or clicks an element; \<open>Click target\<close>
  carries the clicked element's id. The page is loaded with an empty list, the
  sentinel as cursor, and one render.
\<close>

datatype event = Typed string | Click string

definition object_step :: "event \<Rightarrow> edit_app \<Rightarrow> edit_app option" where
  "object_step e s = (case e of Typed v \<Rightarrow> Some (type_text v s) | Click target \<Rightarrow> object_click target s)"

definition hook_step :: "event \<Rightarrow> edit_app \<Rightarrow> edit_app option" where
  "hook_step e s = (case e of Typed v \<Rightarrow> Some (type_text v s) | Click target \<Rightarrow> hook_click target s)"

fun run :: "(event \<Rightarrow> 's \<Rightarrow> 's option) \<Rightarrow> event list \<Rightarrow> 's \<Rightarrow> 's option" where
  "run step [] s = Some s"
| "run step (e # es) s = (case step e s of None \<Rightarrow> None | Some s' \<Rightarrow> run step es s')"

definition loaded :: edit_app where
  "loaded = render \<lparr>inputs = (\<lambda>_. []), attached = 0, todos = [], editIndex = - 1\<rparr>"

lemma cursor_ok_loaded: "cursor_ok loaded"
  by (simp add: cursor_ok_def loaded_def render_def)

lemma cursor_ok_type_text: "cursor_ok s \<Longrightarrow> cursor_ok (type_text v s)"
  by (simp add: cursor_ok_def type_text_def)

lemma cursor_ok_object_submit:
  assumes "cursor_ok s"
  shows "\<exists>s'. object_submit input s = Some s' \<and> cursor_ok s'"
proof -
  consider (blank) "trim (inputs s input) = []"
    | (append) "trim (inputs s input) \<noteq> []" "editIndex s = - 1"
    | (update) "trim (inputs s input) \<noteq> []" "0 \<le> editIndex s"
        "editIndex s < int (length (todos s))"
    using assms by (auto simp: cursor_ok_def)
  then show ?thesis
  proof cases
    case blank
    with assms show ?thesis
      by (simp add: object_submit_blank cursor_ok_def render_def)
  next
    case append
    then show ?thesis
      by (simp add: object_submit_append cursor_ok_def render_def)
  next
    case update
    then show ?thesis
      by (simp add: object_submit_update cursor_ok_def render_def)
  qed
qed

lemma cursor_ok_hook_submit:
  assumes "cursor_ok s"
  shows "\<exists>s'. hook_submit input s = Some s' \<and> cursor_ok s'"
proof -
  consider (blank) "trim (inputs s input) = []"
    | (append) "trim (inputs s input) \<noteq> []" "editIndex s = - 1"
    | (update) "trim (inputs s input) \<noteq> []" "0 \<le> editIndex s"
        "editIndex s < int (length (todos s))"
    using assms by (auto simp: cursor_ok_def)
  then show ?thesis
  proof cases
    case blank
    with assms show ?thesis
      by (simp add: hook_submit_blank cursor_ok_def)
  next
    case append
    then show ?thesis
      by (simp add: hook_submit_append cursor_ok_def)
  next
    case update
    then show ?thesis
      by (simp add: hook_submit_update cursor_ok_def)
  qed
qed

lemma cursor_after_removal:
  fixes e :: int
  assumes "i < n" and "e = - 1 \<or> (0 \<le> e \<and> e < int n)"
  shows "(if e = int i then - 1 else if e > int i then e - 1 else e) = - 1 \<or>
         (0 \<le> (if e = int i then - 1 else if e > int i then e - 1 else e) \<and>
          (if e = int i then - 1 else if e > int i then e - 1 else e) < int (n - Suc i) + int (min n i))"
  using assms by (auto simp: min_def)

lemma cursor_ok_object_delete:
  "cursor_ok s \<Longrightarrow> i < length (todos s) \<Longrightarrow> cursor_ok (object_delete input i s)"
  using cursor_after_removal [of i "length (todos s)" "editIndex s"]
  by (simp add: cursor_ok_def add.commute)

lemma cursor_ok_hook_delete:
  "cursor_ok s \<Longrightarrow> i < length (todos s) \<Longrightarrow> cursor_ok (hook_delete input i s)"
  using cursor_after_removal [of i "length (todos s)" "editIndex s"]
  by (simp add: cursor_ok_def add.commute)

lemma cursor_ok_object_edit: "i < length (todos s) \<Longrightarrow> cursor_ok (object_edit input i s)"
  by (simp add: cursor_ok_def)

lemma cursor_ok_hook_edit: "i < length (todos s) \<Longrightarrow> cursor_ok (hook_edit input i s)"
  by (simp add: cursor_ok_def)

lemma cursor_ok_object_click:
  assumes "cursor_ok s"
  shows "\<exists>s'. object_click target s = Some s' \<and> cursor_ok s'"
proof -
  consider (add) "target = ''add-todo-button''"
    | (delete) i where "target = delete_id i"
    | (edit) i where "target = edit_id i"
    | (other) "target \<noteq> ''add-todo-button''" "\<And>i. target \<noteq> delete_id i"
        "\<And>i. target \<noteq> edit_id i"
    by blast
  then show ?thesis
  proof cases
    case add
    with assms show ?thesis
      by (simp add: object_click_add cursor_ok_object_submit)
  next
    case delete
    with assms show ?thesis
      by (simp add: object_click_delete cursor_ok_object_delete)
  next
    case edit
    with assms show ?thesis
      by (simp add: object_click_edit cursor_ok_object_edit)
  next
    case other
    with assms show ?thesis
      by (simp add: object_click_other)
  qed
qed

lemma cursor_ok_hook_click:
  assumes "cursor_ok s"
  shows "\<exists>s'. hook_click target s = Some s' \<and> cursor_ok s'"
proof -
  consider (add) "target = ''add-todo-button''"
    | (delete) i where "target = delete_id i"
    | (edit) i where "target = edit_id i"
    | (other) "target \<noteq> ''add-todo-button''" "\<And>i. target \<noteq> delete_id i"
        "\<And>i. target \<noteq> edit_id i"
    by blast
  then show ?thesis
  proof cases
    case add
    with assms show ?thesis
      by (simp add: hook_click_add cursor_ok_hook_submit)
  next
    case delete
    with assms show ?thesis
      by (simp add: hook_click_delete cursor_ok_hook_delete)
  next
    case edit
    with assms show ?thesis
      by (simp add: hook_click_edit cursor_ok_hook_edit)
  next
    case other
    with assms show ?thesis
      by (simp add: hook_click_other)
  qed
qed

lemma cursor_ok_run:
  assumes step: "\<And>e s. cursor_ok s \<Longrightarrow> \<exists>s'. step e s = Some s' \<and> cursor_ok s'"
  shows "cursor_ok s \<Longrightarrow> \<exists>s'. run step events s = Some s' \<and> cursor_ok s'"
proof (induction events arbitrary: s)
  case Nil
  then show ?case by simp
next
  case (Cons e events)
  from step [OF Cons.prems] obtain s1 where s1: "step e s = Some s1" "cursor_ok s1"
    by blast
  from Cons.IH [OF s1(2)] s1(1) show ?case by simp
qed

lemma cursor_ok_object_step:
  "cursor_ok s \<Longrightarrow> \<exists>s'. object_step e s = Some s' \<and> cursor_ok s'"
  by (cases e) (simp_all add: object_step_def cursor_ok_type_text cursor_ok_object_click)

lemma cursor_ok_hook_step:
  "cursor_ok s \<Longrightarrow> \<exists>s'. hook_step e s = Some s' \<and> cursor_ok s'"
  by (cases e) (simp_all add: hook_step_def cursor_ok_type_text cursor_ok_hook_click)

lemma nth_after_removal:
  assumes "i < length xs" and "j < length xs" and "j \<noteq> i"
  shows "(take i xs @ drop (Suc i) xs) ! (if i < j then j - 1 else j) = xs ! j"
  using assms by (auto simp: nth_append min_def)

lemma edited_item_after_removal:
  fixes e :: int
  assumes "i < length xs" and "0 \<le> e" and "e < int (length xs)" and "e \<noteq> int i"
  shows "(take i xs @ drop (Suc i) xs) !
           nat (if e = int i then - 1 else if e > int i then e - 1 else e) = xs ! nat e"
proof -
  from assms have j: "nat e < length xs" "nat e \<noteq> i" by auto
  have "nat (if e = int i then - 1 else if e > int i then e - 1 else e) =
      (if i < nat e then nat e - 1 else nat e)"
    using assms by auto
  with nth_after_removal [OF assms(1) j] show ?thesis by simp
qed

lemma delete_keeps_edited_item:
  assumes "cursor_ok s" and "i < length (todos s)"
    and "0 \<le> editIndex s" and "editIndex s \<noteq> int i"
  shows "(\<exists>s'. object_click (delete_id i) s = Some s' \<and>
            todos s' ! nat (editIndex s') = todos s ! nat (editIndex s)) \<and>
         (\<exists>s'. hook_click (delete_id i) s = Some s' \<and>
            todos s' ! nat (editIndex s') = todos s ! nat (editIndex s))"
proof -
  from assms have "editIndex s < int (length (todos s))" by (simp add: cursor_ok_def)
  from edited_item_after_removal [OF assms(2,3) this assms(4)] assms(2)
  show ?thesis by (simp add: object_click_delete hook_click_delete)
qed

text \<open>
  Claim C5. In both iterations with a cursor, every click (on the add/update
  control, a delete control, an edit control or anything else) takes a state whose
  cursor is the sentinel or an index of the list to such a state again; a delete
  of another item than the edited one leaves the cursor on the item it was on; and
  after any sequence of typing and clicking from the loaded page the handlers have
  returned and the cursor is the sentinel or an index of the current list.
\<close>

theorem cursor_stays_valid:
  assumes "cursor_ok s"
  shows "(\<exists>s'. object_click target s = Some s' \<and> cursor_ok s') \<and>
         (\<exists>s'. hook_click target s = Some s' \<and> cursor_ok s') \<and>
         (\<forall>i<length (todos s). 0 \<le> editIndex s \<and> editIndex s \<noteq> int i \<longrightarrow>
            (\<exists>s'. object_click (delete_id i) s = Some s' \<and>
               todos s' ! nat (editIndex s') = todos s ! nat (editIndex s)) \<and>
            (\<exists>s'. hook_click (delete_id i) s = Some s' \<and>
               todos s' ! nat (editIndex s') = todos s ! nat (editIndex s))) \<and>
         (\<exists>s'. run object_step events loaded = Some s' \<and> cursor_ok s') \<and>
         (\<exists>s'. run hook_step events loaded = Some s' \<and> cursor_ok s')"
proof (intro conjI allI impI)
  from assms show "\<exists>s'. object_click target s = Some s' \<and> cursor_ok s'"
    by (rule cursor_ok_object_click)
  from assms show "\<exists>s'. hook_click target s = Some s' \<and> cursor_ok s'"
    by (rule cursor_ok_hook_click)
  show "\<exists>s'. run object_step events loaded = Some s' \<and> cursor_ok s'"
    by (rule cursor_ok_run [OF cursor_ok_object_step cursor_ok_loaded])
  show "\<exists>s'. run hook_step events loaded = Some s' \<and> cursor_ok s'"
    by (rule cursor_ok_run [OF cursor_ok_hook_step cursor_ok_loaded])
next
  fix i
  assume i: "i < length (todos s)" and e: "0 \<le> editIndex s \<and> editIndex s \<noteq> int i"
  from e have e1: "0 \<le> editIndex s" and e2: "editIndex s \<noteq> int i" by simp_all
  note kept = delete_keeps_edited_item [OF assms i e1 e2]
  from kept show "\<exists>s'. object_click (delete_id i) s = Some s' \<and>
      todos s' ! nat (editIndex s') = todos s ! nat (editIndex s)" ..
  from kept show "\<exists>s'. hook_click (delete_id i) s = Some s' \<and>
      todos s' ! nat (editIndex s') = todos s ! nat (editIndex s)" ..
qed

text \<open>The scenario of the specification: add "Buy milk", add "Walk dog", click the
  edit control of item 0, submit "Buy bread", delete item 1.\<close>

definition scenario :: "event list" where
  "scenario =
     [Typed ''Buy milk'', Click ''add-todo-button'',
      Typed ''Walk dog'', Click ''add-todo-button'',
      Click (edit_id 0),
      Typed ''Buy bread'', Click ''add-todo-button'',
      Click (delete_id 1)]"


lemma trim_samples [simp]:
  "trim ''Buy milk'' = ''Buy milk''" "trim ''Walk dog'' = ''Walk dog''"
  by (simp_all add: trim_def is_whitespace_def)

lemma scenario_object:
  "\<exists>s. run object_step scenario loaded = Some s \<and> todos s = [''Buy bread''] \<and> editIndex s = - 1"
  by (simp add: scenario_def loaded_def object_step_def type_text_def render_def
      object_click_add object_click_edit object_click_delete object_submit_def array_store_def
      object_edit_def object_delete_def array_splice_def element_text_def Let_def)

lemma scenario_hook:
  "\<exists>s. run hook_step scenario loaded = Some s \<and> todos s = [''Buy bread''] \<and> editIndex s = - 1"
  by (simp add: scenario_def loaded_def hook_step_def type_text_def render_def
      hook_click_add hook_click_edit hook_click_delete hook_submit_def array_store_def
      hook_edit_def hook_delete_def filter_other_eq element_text_def Let_def
      getTodos_def getEditIndex_def setTodos_def setEditIndex_def)


theorem cursor_stays_valid_witness:
  "cursor_ok errands \<and>
   (\<exists>s'. object_click (delete_id 0) errands = Some s' \<and> cursor_ok s' \<and>
      todos s' ! nat (editIndex s') = ''Walk dog'') \<and>
   (\<exists>s'. hook_click (delete_id 0) errands = Some s' \<and> cursor_ok s' \<and>
      todos s' ! nat (editIndex s') = ''Walk dog'') \<and>
   (\<exists>s'. run object_step scenario loaded = Some s' \<and> cursor_ok s' \<and>
      todos s' = [''Buy bread''] \<and> editIndex s' = - 1) \<and>
   (\<exists>s'. run hook_step scenario loaded = Some s' \<and> cursor_ok s' \<and>
      todos s' = [''Buy bread''] \<and> editIndex s' = - 1)"
proof -
  have a: "cursor_ok errands"
    by (simp add: cursor_ok_def errands_def)
  have b: "todos errands ! nat (editIndex errands) = ''Walk dog''"
    and c: "0 < length (todos errands)" "0 \<le> editIndex errands" "editIndex errands \<noteq> int 0"
    by (simp_all add: errands_def)
  from cursor_stays_valid [OF a, of "delete_id 0" scenario] scenario_object scenario_hook a b c
  show ?thesis by auto
qed

section \<open>The input field after a click\<close>

lemma input_field_object_submit:
  assumes "object_submit input s = Some s'"
  shows "input_field s' = []"
proof -
  from assms obtain s1 where "s' = render (s1\<lparr>inputs := (inputs s1)(input := [])\<rparr>)"
    by (auto simp: object_submit_def Let_def)
  then show ?thesis by simp
qed

lemma input_field_hook_submit:
  assumes "hook_submit (attached s) s = Some s'"
  shows "input_field s' = []"
  using assms
  by (auto simp: hook_submit_def Let_def getEditIndex_def getTodos_def setTodos_def
      setEditIndex_def render_def input_field_def split: if_splits)

text \<open>
  Claim C9. After a click on the add/update control the input field is empty, in
  every iteration and whatever the text was: in the markup iteration and the two
  add-only programs always, in the two programs with a cursor whenever the handler
  returns, which it does in every state whose cursor is the sentinel or an index
  (every state the program reaches, by the claim above).
\<close>

theorem submit_clears_input:
  fixes s :: edit_app and t :: todo_app and m :: markup_page
  shows "field (addTodo m) = [] \<and>
         input_field (array_click ''add-todo-button'' t) = [] \<and>
         (\<forall>s'. object_click ''add-todo-button'' s = Some s' \<longrightarrow> input_field s' = []) \<and>
         (\<forall>s'. hook_click ''add-todo-button'' s = Some s' \<longrightarrow> input_field s' = []) \<and>
         (cursor_ok s \<longrightarrow>
            (\<exists>s'. object_click ''add-todo-button'' s = Some s') \<and>
            (\<exists>s'. hook_click ''add-todo-button'' s = Some s'))"
proof (intro conjI allI impI)
  show "field (addTodo m) = []"
    by (simp add: addTodo_def Let_def)
  show "input_field (array_click ''add-todo-button'' t) = []"
    by (simp add: array_click_add)
next
  fix s' assume "object_click ''add-todo-button'' s = Some s'"
  then show "input_field s' = []"
    by (simp add: object_click_add input_field_object_submit)
next
  fix s' assume "hook_click ''add-todo-button'' s = Some s'"
  then show "input_field s' = []"
    by (simp add: hook_click_add input_field_hook_submit)
next
  assume "cursor_ok s"
  from cursor_ok_object_click [OF this, of "''add-todo-button''"]
  show "\<exists>s'. object_click ''add-todo-button'' s = Some s'" by blast
next
  assume "cursor_ok s"
  from cursor_ok_hook_click [OF this, of "''add-todo-button''"]
  show "\<exists>s'. hook_click ''add-todo-button'' s = Some s'" by blast
qed

definition scribble :: markup_page where
  "scribble = \<lparr>list_texts = [''Buy milk''], field = ''  Walk dog '', alerts = []\<rparr>"

theorem submit_clears_input_witness:
  "cursor_ok errands \<and> cursor_ok blank_form \<and>
   field (addTodo scribble) = [] \<and>
   input_field (array_click ''add-todo-button'' blank_list) = [] \<and>
   (\<exists>s'. object_click ''add-todo-button'' errands = Some s' \<and> input_field s' = []) \<and>
   (\<exists>s'. hook_click ''add-todo-button'' errands = Some s' \<and> input_field s' = []) \<and>
   (\<exists>s'. object_click ''add-todo-button'' blank_form = Some s' \<and> input_field s' = []) \<and>
   (\<exists>s'. hook_click ''add-todo-button'' blank_form = Some s' \<and> input_field s' = [])"
proof -
  have a: "cursor_ok errands" and b: "cursor_ok blank_form"
    by (simp_all add: cursor_ok_def errands_def blank_form_def)
  from submit_clears_input [of scribble blank_list errands]
    submit_clears_input [of scribble blank_list blank_form] a b
  show ?thesis by auto
qed

text \<open>
  A click on an edit control of a valid index selects that item and leaves the
  list alone. The item's text is written into the input element that the handler
  fetched at its start; the render replaces that element, so the input field of
  the page is empty afterwards.
\<close>

lemma edit_click_selects:
  assumes "i < length (todos s)"
  shows "(\<exists>s'. object_click (edit_id i) s = Some s' \<and>
            editIndex s' = int i \<and> todos s' = todos s \<and> input_field s' = []) \<and>
         (\<exists>s'. hook_click (edit_id i) s = Some s' \<and>
            editIndex s' = int i \<and> todos s' = todos s \<and> input_field s' = [])"
  using assms
  by (simp add: object_click_edit hook_click_edit object_edit_def hook_edit_def Let_def
      setEditIndex_def render_def input_field_def)


section \<open>The State Container (useState of part_001)\<close>

text \<open>
  \<open>useState\<close> works on any JavaScript value, functions included, so the values are
  of an arbitrary type \<open>'v\<close>. The setter asks two things of its argument: whether
  \<open>typeof newVal === 'function'\<close>, and if so what \<open>newVal(value)\<close> returns.
  \<open>callable x\<close> answers both: \<open>Some f\<close> for a function value whose result on \<open>y\<close>
  is \<open>f y\<close>, \<open>None\<close> for every other value. The test turns the argument into
  one of the two shapes of \<open>newVal\<close>, and \<open>next_value\<close>, which the setters of the
  todo program use as well, is the assignment.
\<close>

definition typeof_dispatch :: "('v \<Rightarrow> ('v \<Rightarrow> 'v) option) \<Rightarrow> 'v \<Rightarrow> 'v newVal" where
  "typeof_dispatch callable newVal =
     (case callable newVal of Some f \<Rightarrow> Updater f | None \<Rightarrow> Plain newVal)"

text \<open>
  The world outside the container: at least the console. The closure of one
  \<open>useState\<close> call holds the variable \<open>value\<close> (here \<open>stored\<close>) and the parameter
  \<open>renderFn\<close>. The callback takes no argument; it is a closure that can read the
  container through the getter, so it is a function of what the getter returns
  when the callback runs, and of the world, which it changes. \<open>None\<close> stands for a
  \<open>renderFn\<close> that is missing or not a function.
\<close>

record console =
  warnings :: "string list"

record ('v, 'w) container =
  stored :: 'v
  renderFn :: "('v \<Rightarrow> 'w \<Rightarrow> 'w) option"

definition useState ::
  "'v \<Rightarrow> ('v \<Rightarrow> 'w \<Rightarrow> 'w) option \<Rightarrow> ('v, 'w) container" where
  "useState initialVal callback = \<lparr>stored = initialVal, renderFn = callback\<rparr>"

definition getState :: "('v, 'w) container \<Rightarrow> 'v" where
  "getState c = stored c"

definition setState ::
  "('v \<Rightarrow> ('v \<Rightarrow> 'v) option) \<Rightarrow> 'v \<Rightarrow>
   ('v, 'a console_scheme) container \<times> 'a console_scheme \<Rightarrow>
   ('v, 'a console_scheme) container \<times> 'a console_scheme" where
  "setState callable newVal = (\<lambda>(c, world).
     (let assigned = c\<lparr>stored := next_value (typeof_dispatch callable newVal) (stored c)\<rparr>
      in case renderFn c of
           Some callback \<Rightarrow> (assigned, callback (getState assigned) world)
         | None \<Rightarrow>
             (assigned,
              world\<lparr>warnings := warnings world @
                 [''No render function provided or it is not a function'']\<rparr>)))"

text \<open>
  A small universe of values for examples: numbers, the function \<open>x => x\<close>, and
  for each value \<open>v\<close> the function \<open>() => v\<close>.
\<close>

datatype js_value = Num int | Identity | Constant js_value

fun js_callable :: "js_value \<Rightarrow> (js_value \<Rightarrow> js_value) option" where
  "js_callable (Num n) = None"
| "js_callable Identity = Some (\<lambda>x. x)"
| "js_callable (Constant v) = Some (\<lambda>_. v)"

text \<open>A world that records what each callback found in the container.\<close>

record observed = console +
  seen :: "js_value list"

definition observe :: "js_value \<Rightarrow> observed \<Rightarrow> observed" where
  "observe found world = world\<lparr>seen := seen world @ [found]\<rparr>"

definition quiet :: observed where
  "quiet = \<lparr>warnings = [], seen = []\<rparr>"

text \<open>
  Claim C6. The setter given a value that is not a function stores that value;
  given a function it stores the function's result on the current value. The
  container is fully assigned when the callback runs: the callback is applied to
  what the getter returns after the call, the new value. If there is no callback the world only gets
  a warning. The getter afterwards returns the new value, and the callback stays
  the one given at construction.
\<close>

theorem setState_assigns_then_calls:
  "(callable newVal = None \<longrightarrow>
      getState (fst (setState callable newVal (c, world))) = newVal) \<and>
   (\<forall>f. callable newVal = Some f \<longrightarrow>
      getState (fst (setState callable newVal (c, world))) = f (getState c)) \<and>
   (\<forall>callback. renderFn c = Some callback \<longrightarrow>
      snd (setState callable newVal (c, world)) =
        callback (getState (fst (setState callable newVal (c, world)))) world) \<and>
   (renderFn c = None \<longrightarrow>
      snd (setState callable newVal (c, world)) =
        world\<lparr>warnings := warnings world @
          [''No render function provided or it is not a function'']\<rparr>) \<and>
   renderFn (fst (setState callable newVal (c, world))) = renderFn c"
proof -
  have assigned: "fst (setState callable newVal (c, world)) =
      c\<lparr>stored := next_value (typeof_dispatch callable newVal) (stored c)\<rparr>"
    by (simp add: setState_def Let_def split: option.split)
  show ?thesis
  proof (intro conjI allI impI)
    assume "callable newVal = None"
    then show "getState (fst (setState callable newVal (c, world))) = newVal"
      by (simp add: assigned getState_def typeof_dispatch_def)
  next
    fix f assume "callable newVal = Some f"
    then show "getState (fst (setState callable newVal (c, world))) = f (getState c)"
      by (simp add: assigned getState_def typeof_dispatch_def)
  next
    fix callback assume "renderFn c = Some callback"
    then show "snd (setState callable newVal (c, world)) =
        callback (getState (fst (setState callable newVal (c, world)))) world"
      by (simp add: setState_def Let_def)
  next
    assume "renderFn c = None"
    then show "snd (setState callable newVal (c, world)) =
        world\<lparr>warnings := warnings world @
          [''No render function provided or it is not a function'']\<rparr>"
      by (simp add: setState_def Let_def)
  next
    show "renderFn (fst (setState callable newVal (c, world))) = renderFn c"
      by (simp add: assigned)
  qed
qed

theorem setState_assigns_then_calls_witness:
  "getState (fst (setState js_callable (Num 7) (useState (Num 0) (Some observe), quiet))) = Num 7 \<and>
   seen (snd (setState js_callable (Num 7) (useState (Num 0) (Some observe), quiet))) = [Num 7] \<and>
   getState (fst (setState js_callable (Constant (Num 3)) (useState (Num 0) (Some observe), quiet))) = Num 3 \<and>
   seen (snd (setState js_callable (Constant (Num 3)) (useState (Num 0) (Some observe), quiet))) = [Num 3] \<and>
   warnings (snd (setState js_callable (Num 7) (useState (Num 0) None, quiet))) =
     [''No render function provided or it is not a function'']"
  using setState_assigns_then_calls [of js_callable "Num 7" "useState (Num 0) (Some observe)" quiet]
    setState_assigns_then_calls [of js_callable "Constant (Num 3)" "useState (Num 0) (Some observe)" quiet]
    setState_assigns_then_calls [of js_callable "Num 7" "useState (Num 0) None" quiet]
  by (simp add: useState_def observe_def quiet_def getState_def)

text \<open>
  Claim C10, as the code has it. A function passed to the setter is always called
  on the current value and its result is stored, so the function itself is the new
  stored value only when it is its own result. What is stored may well be a
  function: the result of the call can be one.
\<close>

theorem setState_calls_functions:
  assumes "callable newVal = Some f"
  shows "fst (setState callable newVal (c, world)) = c\<lparr>stored := f (stored c)\<rparr> \<and>
         (getState (fst (setState callable newVal (c, world))) = newVal \<longleftrightarrow>
            f (getState c) = newVal)"
proof -
  from assms have "fst (setState callable newVal (c, world)) = c\<lparr>stored := f (stored c)\<rparr>"
    by (simp add: setState_def Let_def typeof_dispatch_def split: option.split)
  then show ?thesis by (simp add: getState_def)
qed

theorem setState_calls_functions_witness:
  "js_callable Identity = Some (\<lambda>x. x) \<and>
   fst (setState js_callable Identity (useState (Num 5) None, quiet)) = useState (Num 5) None \<and>
   getState (fst (setState js_callable Identity (useState (Num 5) None, quiet))) \<noteq> Identity"
proof -
  have a: "js_callable Identity = Some (\<lambda>x. x)" by simp
  from setState_calls_functions [of js_callable Identity "\<lambda>x. x" "useState (Num 5) None" quiet, OF a] a
  show ?thesis by (simp add: useState_def getState_def)
qed

text \<open>The claim as written fails: a container that starts with a number holds a
  function after \<open>setState(() => (x => x))\<close>.\<close>

theorem setState_stores_function:
  "js_callable (getState (useState (Num 0) None)) = None \<and>
   getState (fst (setState js_callable (Constant Identity) (useState (Num 0) None, quiet))) = Identity \<and>
   js_callable (getState (fst (setState js_callable (Constant Identity) (useState (Num 0) None, quiet)))) \<noteq> None"
  by (simp add: setState_def useState_def getState_def typeof_dispatch_def Let_def)

section \<open>The Element Builder and the Style Serializer\<close>

text \<open>
  A node is a text leaf or an element: tag, attributes set with \<open>setAttribute\<close>,
  class list, inline style text, data attributes and children. Names of
  attributes and data keys are kept as the program writes them.
\<close>

datatype node =
    TextNode string
  | Element (tagName: string) (attributes: "(string \<times> string) list")
      (classList: "string list") (cssText: string)
      (dataset: "(string \<times> string) list") (childNodes: "node list")

text \<open>
  What can be thrown. \<open>Error\<close> and \<open>TypeError\<close> with a message are the ones the
  programs throw themselves; \<open>DOMException\<close> carries the name of an exception of
  the DOM. \<open>RuntimeTypeError\<close> is the TypeError that the JavaScript runtime throws
  on its own (a property read on \<open>null\<close>, a call of something that is not a
  function); its message is the engine's and no part of the programs.
\<close>

datatype error =
    Error string
  | TypeError string
  | DOMException string
  | RuntimeTypeError

text \<open>The value of an attribute entry is a string or, for \<open>style\<close> and \<open>dataset\<close>,
  an object of string properties. A child argument is a string, a node or any
  other value.\<close>

datatype attribute_value = AttrString string | AttrObject "(string \<times> string) list"

datatype child = ChildString string | ChildNode node | ChildOther

definition and_then :: "error + 'a \<Rightarrow> ('a \<Rightarrow> error + 'b) \<Rightarrow> error + 'b" where
  "and_then r f = (case r of Inl e \<Rightarrow> Inl e | Inr x \<Rightarrow> f x)"

text \<open>\<open>entries.map(([key, value]) => `${key}: ${value}`).join(';')\<close>\<close>

fun join :: "string \<Rightarrow> string list \<Rightarrow> string" where
  "join sep [] = []"
| "join sep [x] = x"
| "join sep (x # y # ys) = x @ sep @ join sep (y # ys)"

definition extractStyle :: "(string \<times> string) list \<Rightarrow> string" where
  "extractStyle entries = join '';'' (map (\<lambda>(key, value). key @ '': '' @ value) entries)"

text \<open>\<open>value.split(' ')\<close>: the pieces between single spaces, empty ones included.\<close>

fun split_on :: "char \<Rightarrow> string \<Rightarrow> string list" where
  "split_on c [] = [[]]"
| "split_on c (x # xs) =
     (if x = c then [] # split_on c xs
      else (case split_on c xs of w # ws \<Rightarrow> (x # w) # ws | [] \<Rightarrow> [[x]]))"

text \<open>\<open>Object.entries\<close> of an object gives its properties; of a string, its
  characters under their indices.\<close>

definition object_entries :: "attribute_value \<Rightarrow> (string \<times> string) list" where
  "object_entries value =
     (case value of
        AttrObject properties \<Rightarrow> properties
      | AttrString s \<Rightarrow> map (\<lambda>(i, c). (decimal i, [c])) (zip [0..<length s] s))"

text \<open>Setting a property of a map-like object: an existing key keeps its place.\<close>

fun set_property :: "string \<Rightarrow> string \<Rightarrow> (string \<times> string) list \<Rightarrow> (string \<times> string) list" where
  "set_property key v [] = [(key, v)]"
| "set_property key v ((k, w) # rest) =
     (if k = key then (k, v) # rest else (k, w) # set_property key v rest)"

text \<open>
  \<open>element.classList.add(...tokens)\<close>: the DOM goes through the tokens and
  refuses an empty one (SyntaxError) and one with ASCII white space in it
  (InvalidCharacterError); if none is refused, each token not yet in the list is
  appended.
\<close>

definition ascii_whitespace :: "char \<Rightarrow> bool" where
  "ascii_whitespace c \<longleftrightarrow> c \<in> {CHR 0x09, CHR 0x0A, CHR 0x0C, CHR 0x0D, CHR 0x20}"

fun refused_token :: "string list \<Rightarrow> error option" where
  "refused_token [] = None"
| "refused_token (t # ts) =
     (if t = [] then Some (DOMException ''SyntaxError'')
      else if \<exists>c\<in>set t. ascii_whitespace c then Some (DOMException ''InvalidCharacterError'')
      else refused_token ts)"

definition classList_add :: "string list \<Rightarrow> string list \<Rightarrow> error + string list" where
  "classList_add tokens classes =
     (case refused_token tokens of
        Some thrown \<Rightarrow> Inl thrown
      | None \<Rightarrow> Inr (fold (\<lambda>t cs. if t \<in> set cs then cs else cs @ [t]) tokens classes))"

text \<open>One round of the loop over \<open>Object.entries(attributes)\<close>. An object as class
  has no \<open>split\<close>; an object given to \<open>setAttribute\<close> is turned into a string.\<close>

fun set_entry :: "string \<times> attribute_value \<Rightarrow> node \<Rightarrow> error + node" where
  "set_entry (key, value) (TextNode s) = Inr (TextNode s)"
| "set_entry (key, value) (Element tag attrs classes style data kids) =
     (if key = ''class'' then
        (case value of
           AttrString v \<Rightarrow>
             and_then (classList_add (split_on CHR '' '' v) classes)
               (\<lambda>added. Inr (Element tag attrs added style data kids))
         | AttrObject _ \<Rightarrow> Inl RuntimeTypeError)
      else if key = ''style'' then
        Inr (Element tag attrs classes (extractStyle (object_entries value)) data kids)
      else if key = ''dataset'' then
        Inr (Element tag attrs classes style
               (fold (\<lambda>(dataKey, dataValue). set_property dataKey dataValue)
                  (object_entries value) data) kids)
      else
        Inr (Element tag
               (set_property key
                  (case value of AttrString v \<Rightarrow> v | AttrObject _ \<Rightarrow> ''[object Object]'') attrs)
               classes style data kids))"

text \<open>\<open>parent.appendChild(child)\<close>; every parent of the program is an element.\<close>

fun appendChild :: "node \<Rightarrow> node \<Rightarrow> node" where
  "appendChild (Element tag attrs classes style data kids) new =
     Element tag attrs classes style data (kids @ [new])"
| "appendChild (TextNode s) new = TextNode s"

text \<open>One round of the loop over the children.\<close>

fun add_child :: "child \<Rightarrow> node \<Rightarrow> error + node" where
  "add_child (ChildString s) element = Inr (appendChild element (TextNode s))"
| "add_child (ChildNode n) element = Inr (appendChild element n)"
| "add_child ChildOther element = Inl (TypeError ''Children must be a string or a Node'')"

text \<open>A loop whose body may throw: the first error ends it.\<close>

fun each :: "('a \<Rightarrow> 's \<Rightarrow> error + 's) \<Rightarrow> 'a list \<Rightarrow> 's \<Rightarrow> error + 's" where
  "each body [] s = Inr s"
| "each body (x # xs) s = and_then (body x s) (each body xs)"

definition createElement ::
  "string \<Rightarrow> (string \<times> attribute_value) list \<Rightarrow> child list \<Rightarrow> error + node" where
  "createElement tag attrs children =
     and_then (each set_entry attrs (Element tag [] [] [] [] []))
       (each add_child children)"

text \<open>\<open>array.map(callback)\<close> with a callback that may throw.\<close>

fun map_each :: "('a \<Rightarrow> error + 'b) \<Rightarrow> 'a list \<Rightarrow> error + 'b list" where
  "map_each f [] = Inr []"
| "map_each f (x # xs) =
     and_then (f x) (\<lambda>y. and_then (map_each f xs) (\<lambda>ys. Inr (y # ys)))"

text \<open>The pairs of \<open>todos.map((todo, index) => ...)\<close>.\<close>

definition indexed :: "'a list \<Rightarrow> ('a \<times> nat) list" where
  "indexed xs = zip xs [0..<length xs]"

section \<open>The Todo View Builder\<close>

text \<open>\<open>todoList.append(...items)\<close>\<close>

definition append_all :: "node \<Rightarrow> node list \<Rightarrow> node" where
  "append_all parent nodes = fold (\<lambda>n p. appendChild p n) nodes parent"

text \<open>The row of one item in src/index.js and in the first program of part_002:
  the text and a delete control.\<close>

definition array_item :: "string \<times> nat \<Rightarrow> error + node" where
  "array_item = (\<lambda>(todo, index).
     and_then (createElement ''span''
        [(''class'', AttrString ''text''), (''id'', AttrString (todo_id index))]
        [ChildString todo]) (\<lambda>span.
     and_then (createElement ''button''
        [(''id'', AttrString (delete_id index)), (''class'', AttrString ''delete-button''),
         (''type'', AttrString ''button'')]
        [ChildString ''Delete'']) (\<lambda>button.
     createElement ''li'' [(''class'', AttrString ''todo-item'')]
        [ChildNode span, ChildNode button])))"

text \<open>\<open>todoComponent\<close> of src/index.js returns its six parts unassembled.\<close>

datatype index_parts = Parts node node node node node "node list"

definition index_todoComponent :: "string list \<Rightarrow> error + index_parts" where
  "index_todoComponent list =
     and_then (createElement ''div''
        [(''id'', AttrString ''todo-container''), (''class'', AttrString ''todo-container'')] [])
       (\<lambda>todoContainer.
     and_then (createElement ''h1'' [(''class'', AttrString ''todo-title'')]
        [ChildString ''Todo List''])
       (\<lambda>title.
     and_then (createElement ''input''
        [(''id'', AttrString ''todo-input''), (''class'', AttrString ''todo-input''),
         (''type'', AttrString ''text''), (''placeholder'', AttrString ''Add a new todo...'')] [])
       (\<lambda>input.
     and_then (createElement ''button''
        [(''id'', AttrString ''add-todo-button''), (''class'', AttrString ''todo-button''),
         (''type'', AttrString ''button'')]
        [ChildString ''Add Todo''])
       (\<lambda>addButton.
     and_then (createElement ''ul''
        [(''id'', AttrString ''todo-list''), (''class'', AttrString ''todo-list'')] [])
       (\<lambda>todoList.
     and_then (map_each array_item (indexed list))
       (\<lambda>items.
     Inr (Parts todoContainer title input addButton todoList items)))))))"

text \<open>
  From the first program of part_002 on, \<open>todoComponent\<close> returns an object with
  a container and its children, and \<open>render\<close> accepts three shapes of result: that
  object, one element, or an array.
\<close>

datatype component =
    Composite node "node list"
  | Single node
  | Several "node list"
  | Malformed

definition empty_message :: "error + node" where
  "empty_message =
     createElement ''li'' [(''class'', AttrString ''empty-message'')]
       [ChildString ''No todos available. Add a new todo!'']"

definition array_todoComponent :: "string list \<Rightarrow> error + component" where
  "array_todoComponent list =
     and_then (createElement ''div''
        [(''id'', AttrString ''todo-container''), (''class'', AttrString ''todo-container'')] [])
       (\<lambda>todoContainer.
     and_then (createElement ''h1'' [(''class'', AttrString ''todo-title'')]
        [ChildString ''Todo List''])
       (\<lambda>title.
     and_then (createElement ''input''
        [(''id'', AttrString ''todo-input''), (''class'', AttrString ''todo-input''),
         (''type'', AttrString ''text''), (''placeholder'', AttrString ''Add a new todo...'')] [])
       (\<lambda>input.
     and_then (createElement ''button''
        [(''id'', AttrString ''add-todo-button''), (''class'', AttrString ''todo-button''),
         (''type'', AttrString ''button'')]
        [ChildString ''Add Todo''])
       (\<lambda>addButton.
     and_then (createElement ''ul''
        [(''id'', AttrString ''todo-list''), (''class'', AttrString ''todo-list'')] [])
       (\<lambda>todoList.
     and_then (map_each array_item (indexed list))
       (\<lambda>items.
     and_then
       (if length items = 0
        then and_then empty_message (\<lambda>emptyMessage. Inr (appendChild todoList emptyMessage))
        else Inr todoList)
       (\<lambda>todoList.
     Inr (Composite todoContainer
            [title, input, addButton, append_all todoList items]))))))))"

text \<open>The second program of part_002: placeholder and label follow the cursor, and
  each row has an edit control after the delete control.\<close>

definition object_item :: "string \<times> nat \<Rightarrow> error + node" where
  "object_item = (\<lambda>(todo, index).
     and_then (createElement ''span''
        [(''class'', AttrString ''text''), (''id'', AttrString (todo_id index))]
        [ChildString todo]) (\<lambda>span.
     and_then (createElement ''button''
        [(''id'', AttrString (delete_id index)), (''class'', AttrString ''delete-button''),
         (''type'', AttrString ''button'')]
        [ChildString ''Delete'']) (\<lambda>deleteButton.
     and_then (createElement ''button''
        [(''id'', AttrString (edit_id index)), (''class'', AttrString ''edit-button''),
         (''type'', AttrString ''button'')]
        [ChildString ''Edit'']) (\<lambda>editButton.
     createElement ''li'' [(''class'', AttrString ''todo-item'')]
        [ChildNode span, ChildNode deleteButton, ChildNode editButton]))))"

definition object_todoComponent :: "string list \<Rightarrow> int \<Rightarrow> error + component" where
  "object_todoComponent list cursor =
     and_then (createElement ''div''
        [(''id'', AttrString ''todo-container''), (''class'', AttrString ''todo-container'')] [])
       (\<lambda>todoContainer.
     and_then (createElement ''h1'' [(''class'', AttrString ''todo-title'')]
        [ChildString ''Todo List''])
       (\<lambda>title.
     and_then (createElement ''input''
        [(''id'', AttrString ''todo-input''), (''class'', AttrString ''todo-input''),
         (''type'', AttrString ''text''),
         (''placeholder'',
            AttrString (if cursor \<noteq> - 1 then ''Edit your todo...'' else ''Add a new todo...''))]
        [])
       (\<lambda>input.
     and_then (createElement ''button''
        [(''id'', AttrString ''add-todo-button''), (''class'', AttrString ''todo-button''),
         (''type'', AttrString ''button'')]
        [ChildString (if cursor \<noteq> - 1 then ''Update Todo'' else ''Add Todo'')])
       (\<lambda>addButton.
     and_then (createElement ''ul''
        [(''id'', AttrString ''todo-list''), (''class'', AttrString ''todo-list'')] [])
       (\<lambda>todoList.
     and_then (map_each object_item (indexed list))
       (\<lambda>items.
     and_then
       (if length items = 0
        then and_then empty_message (\<lambda>emptyMessage. Inr (appendChild todoList emptyMessage))
        else Inr todoList)
       (\<lambda>todoList.
     Inr (Composite todoContainer
            [title, input, addButton, append_all todoList items]))))))))"

text \<open>The program of part_001: an input section, rows with a button group (edit
  control first), either the placeholder row or the rows, and a statistics
  section with the number of items.\<close>

definition hook_item :: "string \<times> nat \<Rightarrow> error + node" where
  "hook_item = (\<lambda>(todo, index).
     and_then (createElement ''li'' [(''class'', AttrString ''todo-item'')] []) (\<lambda>todoItem.
     and_then (createElement ''span''
        [(''class'', AttrString ''text''), (''id'', AttrString (todo_id index))]
        [ChildString todo]) (\<lambda>textSpan.
     and_then (createElement ''div'' [(''class'', AttrString ''button-group'')] []) (\<lambda>buttonGroup.
     and_then (createElement ''button''
        [(''id'', AttrString (edit_id index)), (''class'', AttrString ''edit-button''),
         (''type'', AttrString ''button'')]
        [ChildString ''Edit'']) (\<lambda>editButton.
     and_then (createElement ''button''
        [(''id'', AttrString (delete_id index)), (''class'', AttrString ''delete-button''),
         (''type'', AttrString ''button'')]
        [ChildString ''Delete'']) (\<lambda>deleteButton.
     Inr (appendChild (appendChild todoItem textSpan)
            (appendChild (appendChild buttonGroup editButton) deleteButton))))))))"

definition hook_todoComponent :: "string list \<Rightarrow> int \<Rightarrow> error + component" where
  "hook_todoComponent list cursor =
     and_then (createElement ''div''
        [(''id'', AttrString ''todo-container''), (''class'', AttrString ''todo-container'')] [])
       (\<lambda>todoContainer.
     and_then (createElement ''h1'' [(''class'', AttrString ''todo-title'')]
        [ChildString ''Todo List''])
       (\<lambda>title.
     and_then (createElement ''div'' [(''class'', AttrString ''input-section'')] [])
       (\<lambda>inputSection.
     and_then (createElement ''input''
        [(''id'', AttrString ''todo-input''), (''class'', AttrString ''todo-input''),
         (''type'', AttrString ''text''),
         (''placeholder'',
            AttrString (if cursor \<noteq> - 1 then ''Edit your todo...'' else ''Add a new todo...''))]
        [])
       (\<lambda>input.
     and_then (createElement ''button''
        [(''id'', AttrString ''add-todo-button''), (''class'', AttrString ''todo-button''),
         (''type'', AttrString ''button'')]
        [ChildString (if cursor \<noteq> - 1 then ''Update Todo'' else ''Add Todo'')])
       (\<lambda>addButton.
     and_then (createElement ''ul''
        [(''id'', AttrString ''todo-list''), (''class'', AttrString ''todo-list'')] [])
       (\<lambda>todoList.
     and_then (map_each hook_item (indexed list))
       (\<lambda>items.
     and_then
       (if length items = 0
        then and_then empty_message (\<lambda>emptyMessage. Inr (appendChild todoList emptyMessage))
        else Inr (append_all todoList items))
       (\<lambda>todoList.
     and_then (createElement ''div'' [(''class'', AttrString ''stats-section'')] [])
       (\<lambda>statsSection.
     and_then (createElement ''div'' [(''class'', AttrString ''stats-title'')]
        [ChildString ''Statistics''])
       (\<lambda>statsTitle.
     and_then (createElement ''div'' [(''class'', AttrString ''stats-item'')] [])
       (\<lambda>totalStat.
     and_then (createElement ''span'' [] [ChildString ''Total tasks:''])
       (\<lambda>label.
     and_then (createElement ''span'' [(''class'', AttrString ''stats-value'')]
        [ChildString (decimal (length list))])
       (\<lambda>total.
     Inr (Composite todoContainer
            [title,
             appendChild (appendChild inputSection input) addButton,
             todoList,
             appendChild (appendChild statsSection statsTitle)
               (appendChild (appendChild totalStat label) total)]))))))))))))))"

section \<open>The Render Loop\<close>

text \<open>
  The document as far as rendering goes: the children of the element with id
  \<open>root\<close>, or \<open>None\<close> if the document has no such element. A render returns the
  error it threw, if any, and the document as it then is.
\<close>

type_synonym document = "node list option"

fun is_element :: "node \<Rightarrow> bool" where
  "is_element (Element tag attrs classes style data kids) = True"
| "is_element (TextNode s) = False"

text \<open>\<open>render\<close> of src/index.js: the content is cleared only if the root exists,
  the parts are built either way, and \<open>root.appendChild\<close> on a missing root is
  the TypeError of the runtime.\<close>

definition index_render :: "string list \<Rightarrow> document \<Rightarrow> error option \<times> document" where
  "index_render list doc =
     (let cleared = (case doc of Some previous \<Rightarrow> Some [] | None \<Rightarrow> None) in
      case index_todoComponent list of
        Inl thrown \<Rightarrow> (Some thrown, cleared)
      | Inr (Parts todoContainer title input addButton todoList items) \<Rightarrow>
          (case cleared of
             None \<Rightarrow> (Some RuntimeTypeError, None)
           | Some content \<Rightarrow>
               (None,
                Some (content @
                  [append_all todoContainer
                     [title, input, addButton, append_all todoList items]]))))"

text \<open>\<open>render\<close> of the later programs, given the result of \<open>todoComponent()\<close>.\<close>

definition attach_children :: "node \<Rightarrow> node list \<Rightarrow> node" where
  "attach_children parent nodes =
     fold (\<lambda>child p. if is_element child then appendChild p child else p) nodes parent"

definition render_component ::
  "(error + component) \<Rightarrow> document \<Rightarrow> error option \<times> document" where
  "render_component built doc =
     (case doc of
        None \<Rightarrow> (Some (Error ''Root element not found in the DOM''), None)
      | Some previous \<Rightarrow>
          (case built of
             Inl thrown \<Rightarrow> (Some thrown, Some [])
           | Inr (Composite box parts) \<Rightarrow>
               (None, Some [attach_children box parts])
           | Inr (Single n) \<Rightarrow>
               (if is_element n then (None, Some [n])
                else (Some (TypeError
                  ''Component must be an HTMLElement or an array of HTMLElements''), Some []))
           | Inr (Several items) \<Rightarrow> (None, Some (filter is_element items))
           | Inr Malformed \<Rightarrow>
               (Some (TypeError
                  ''Component must be an HTMLElement or an array of HTMLElements''), Some [])))"

definition object_render :: "string list \<Rightarrow> int \<Rightarrow> document \<Rightarrow> error option \<times> document" where
  "object_render list cursor = render_component (object_todoComponent list cursor)"

definition hook_render :: "string list \<Rightarrow> int \<Rightarrow> document \<Rightarrow> error option \<times> document" where
  "hook_render list cursor = render_component (hook_todoComponent list cursor)"

text \<open>In the first program of part_002 the branch for one element names
  \<open>root.appendChild\<close> without calling it.\<close>

definition array_render :: "string list \<Rightarrow> document \<Rightarrow> error option \<times> document" where
  "array_render list doc =
     (case doc of
        None \<Rightarrow> (Some (Error ''Root element not found in the DOM''), None)
      | Some previous \<Rightarrow>
          (case array_todoComponent list of
             Inl thrown \<Rightarrow> (Some thrown, Some [])
           | Inr (Composite box parts) \<Rightarrow>
               (None, Some [attach_children box parts])
           | Inr (Single n) \<Rightarrow>
               (if is_element n then (None, Some [])
                else (Some (TypeError
                  ''Component must be an HTMLElement or an array of HTMLElements''), Some []))
           | Inr (Several items) \<Rightarrow> (None, Some (filter is_element items))
           | Inr Malformed \<Rightarrow>
               (Some (TypeError
                  ''Component must be an HTMLElement or an array of HTMLElements''), Some [])))"

section \<open>What the views contain\<close>

text \<open>The number of nodes of a tree, and of a list of trees, that satisfy a test.\<close>

fun count_nodes :: "(node \<Rightarrow> bool) \<Rightarrow> node \<Rightarrow> nat" where
  "count_nodes P (TextNode s) = (if P (TextNode s) then 1 else 0)"
| "count_nodes P (Element tag attrs classes style data kids) =
     (if P (Element tag attrs classes style data kids) then 1 else 0) +
     sum_list (map (count_nodes P) kids)"

definition count_in :: "(node \<Rightarrow> bool) \<Rightarrow> node list \<Rightarrow> nat" where
  "count_in P ns = sum_list (map (count_nodes P) ns)"

fun has_class :: "string \<Rightarrow> node \<Rightarrow> bool" where
  "has_class c (Element tag attrs classes style data kids) \<longleftrightarrow> c \<in> set classes"
| "has_class c (TextNode s) \<longleftrightarrow> False"

fun element_id :: "node \<Rightarrow> string option" where
  "element_id (Element tag attrs classes style data kids) = map_of attrs ''id''"
| "element_id (TextNode s) = None"

definition starts_with :: "string \<Rightarrow> string \<Rightarrow> bool" where
  "starts_with p s \<longleftrightarrow> take (length p) s = p"

text \<open>A delete or edit control is an element whose id has the form the Event Router
  looks for; the placeholder row is the \<open>li\<close> of class \<open>empty-message\<close> with the
  fixed text.\<close>

definition is_delete_control :: "node \<Rightarrow> bool" where
  "is_delete_control n \<longleftrightarrow>
     (case element_id n of Some i \<Rightarrow> starts_with ''delete-todo-'' i | None \<Rightarrow> False)"

definition is_edit_control :: "node \<Rightarrow> bool" where
  "is_edit_control n \<longleftrightarrow>
     (case element_id n of Some i \<Rightarrow> starts_with ''edit-todo-'' i | None \<Rightarrow> False)"

fun is_placeholder_row :: "node \<Rightarrow> bool" where
  "is_placeholder_row (Element tag attrs classes style data kids) \<longleftrightarrow>
     tag = ''li'' \<and> ''empty-message'' \<in> set classes \<and>
     kids = [TextNode ''No todos available. Add a new todo!'']"
| "is_placeholder_row (TextNode s) \<longleftrightarrow> False"

fun component_nodes :: "component \<Rightarrow> node list" where
  "component_nodes (Composite box parts) = box # parts"
| "component_nodes (Single n) = [n]"
| "component_nodes (Several ns) = ns"
| "component_nodes Malformed = []"

fun parts_nodes :: "index_parts \<Rightarrow> node list" where
  "parts_nodes (Parts todoContainer title input addButton todoList items) =
     [todoContainer, title, input, addButton, todoList] @ items"

text \<open>The rows, written out.\<close>

lemma array_item_eq:
  "array_item (todo, index) =
     Inr (Element ''li'' [] [''todo-item''] [] []
       [Element ''span'' [(''id'', todo_id index)] [''text''] [] [] [TextNode todo],
        Element ''button'' [(''id'', delete_id index), (''type'', ''button'')]
          [''delete-button''] [] [] [TextNode ''Delete'']])"
  by (simp add: array_item_def createElement_def and_then_def classList_add_def
      ascii_whitespace_def)

lemma object_item_eq:
  "object_item (todo, index) =
     Inr (Element ''li'' [] [''todo-item''] [] []
       [Element ''span'' [(''id'', todo_id index)] [''text''] [] [] [TextNode todo],
        Element ''button'' [(''id'', delete_id index), (''type'', ''button'')]
          [''delete-button''] [] [] [TextNode ''Delete''],
        Element ''button'' [(''id'', edit_id index), (''type'', ''button'')]
          [''edit-button''] [] [] [TextNode ''Edit'']])"
  by (simp add: object_item_def createElement_def and_then_def classList_add_def
      ascii_whitespace_def)

lemma hook_item_eq:
  "hook_item (todo, index) =
     Inr (Element ''li'' [] [''todo-item''] [] []
       [Element ''span'' [(''id'', todo_id index)] [''text''] [] [] [TextNode todo],
        Element ''div'' [] [''button-group''] [] []
          [Element ''button'' [(''id'', edit_id index), (''type'', ''button'')]
             [''edit-button''] [] [] [TextNode ''Edit''],
           Element ''button'' [(''id'', delete_id index), (''type'', ''button'')]
             [''delete-button''] [] [] [TextNode ''Delete'']]])"
  by (simp add: hook_item_def createElement_def and_then_def classList_add_def
      ascii_whitespace_def)

lemma empty_message_eq:
  "empty_message =
     Inr (Element ''li'' [] [''empty-message''] [] []
       [TextNode ''No todos available. Add a new todo!''])"
  by (simp add: empty_message_def createElement_def and_then_def classList_add_def
      ascii_whitespace_def)

lemma map_each_Inr:
  assumes "\<And>x. x \<in> set xs \<Longrightarrow> \<exists>y. f x = Inr y"
  shows "map_each f xs = Inr (map (projr \<circ> f) xs)"
  using assms
proof (induction xs)
  case Nil
  show ?case by simp
next
  case (Cons x xs)
  from Cons.prems [of x] obtain y where y: "f x = Inr y" by auto
  from Cons.IH Cons.prems have "map_each f xs = Inr (map (projr \<circ> f) xs)" by simp
  with y show ?case by (simp add: and_then_def)
qed

lemma map_each_array_item:
  "map_each array_item (indexed list) = Inr (map (projr \<circ> array_item) (indexed list))"
  by (rule map_each_Inr) (auto simp: array_item_eq)

lemma map_each_object_item:
  "map_each object_item (indexed list) = Inr (map (projr \<circ> object_item) (indexed list))"
  by (rule map_each_Inr) (auto simp: object_item_eq)

lemma map_each_hook_item:
  "map_each hook_item (indexed list) = Inr (map (projr \<circ> hook_item) (indexed list))"
  by (rule map_each_Inr) (auto simp: hook_item_eq)

lemma indexed_Nil_iff [simp]: "indexed list = [] \<longleftrightarrow> list = []"
  by (cases list) (simp_all add: indexed_def upt_conv_Cons del: upt_Suc)

lemma append_all_Element [simp]:
  "append_all (Element tag attrs classes style data kids) ns =
     Element tag attrs classes style data (kids @ ns)"
  unfolding append_all_def
  by (induction ns arbitrary: kids) simp_all

text \<open>The views, written out.\<close>

lemma index_todoComponent_eq:
  "index_todoComponent list =
     Inr (Parts
       (Element ''div'' [(''id'', ''todo-container'')] [''todo-container''] [] [] [])
       (Element ''h1'' [] [''todo-title''] [] [] [TextNode ''Todo List''])
       (Element ''input''
          [(''id'', ''todo-input''), (''type'', ''text''), (''placeholder'', ''Add a new todo...'')]
          [''todo-input''] [] [] [])
       (Element ''button'' [(''id'', ''add-todo-button''), (''type'', ''button'')]
          [''todo-button''] [] [] [TextNode ''Add Todo''])
       (Element ''ul'' [(''id'', ''todo-list'')] [''todo-list''] [] [] [])
       (map (projr \<circ> array_item) (indexed list)))"
  by (simp add: index_todoComponent_def createElement_def and_then_def classList_add_def
      ascii_whitespace_def map_each_array_item)

lemma array_todoComponent_eq:
  "array_todoComponent list =
     Inr (Composite
       (Element ''div'' [(''id'', ''todo-container'')] [''todo-container''] [] [] [])
       [Element ''h1'' [] [''todo-title''] [] [] [TextNode ''Todo List''],
        Element ''input''
          [(''id'', ''todo-input''), (''type'', ''text''), (''placeholder'', ''Add a new todo...'')]
          [''todo-input''] [] [] [],
        Element ''button'' [(''id'', ''add-todo-button''), (''type'', ''button'')]
          [''todo-button''] [] [] [TextNode ''Add Todo''],
        Element ''ul'' [(''id'', ''todo-list'')] [''todo-list''] [] []
          (if list = []
           then [Element ''li'' [] [''empty-message''] [] []
                   [TextNode ''No todos available. Add a new todo!'']]
           else map (projr \<circ> array_item) (indexed list))])"
  by (simp add: array_todoComponent_def createElement_def and_then_def classList_add_def
      ascii_whitespace_def map_each_array_item empty_message_eq)

lemma object_todoComponent_eq:
  "object_todoComponent list cursor =
     Inr (Composite
       (Element ''div'' [(''id'', ''todo-container'')] [''todo-container''] [] [] [])
       [Element ''h1'' [] [''todo-title''] [] [] [TextNode ''Todo List''],
        Element ''input''
          [(''id'', ''todo-input''), (''type'', ''text''),
           (''placeholder'',
              if cursor \<noteq> - 1 then ''Edit your todo...'' else ''Add a new todo...'')]
          [''todo-input''] [] [] [],
        Element ''button'' [(''id'', ''add-todo-button''), (''type'', ''button'')]
          [''todo-button''] [] []
          [TextNode (if cursor \<noteq> - 1 then ''Update Todo'' else ''Add Todo'')],
        Element ''ul'' [(''id'', ''todo-list'')] [''todo-list''] [] []
          (if list = []
           then [Element ''li'' [] [''empty-message''] [] []
                   [TextNode ''No todos available. Add a new todo!'']]
           else map (projr \<circ> object_item) (indexed list))])"
  by (simp add: object_todoComponent_def createElement_def and_then_def classList_add_def
      ascii_whitespace_def map_each_object_item empty_message_eq)

lemma hook_todoComponent_eq:
  "hook_todoComponent list cursor =
     Inr (Composite
       (Element ''div'' [(''id'', ''todo-container'')] [''todo-container''] [] [] [])
       [Element ''h1'' [] [''todo-title''] [] [] [TextNode ''Todo List''],
        Element ''div'' [] [''input-section''] [] []
          [Element ''input''
             [(''id'', ''todo-input''), (''type'', ''text''),
              (''placeholder'',
                 if cursor \<noteq> - 1 then ''Edit your todo...'' else ''Add a new todo...'')]
             [''todo-input''] [] [] [],
           Element ''button'' [(''id'', ''add-todo-button''), (''type'', ''button'')]
             [''todo-button''] [] []
             [TextNode (if cursor \<noteq> - 1 then ''Update Todo'' else ''Add Todo'')]],
        Element ''ul'' [(''id'', ''todo-list'')] [''todo-list''] [] []
          (if list = []
           then [Element ''li'' [] [''empty-message''] [] []
                   [TextNode ''No todos available. Add a new todo!'']]
           else map (projr \<circ> hook_item) (indexed list)),
        Element ''div'' [] [''stats-section''] [] []
          [Element ''div'' [] [''stats-title''] [] [] [TextNode ''Statistics''],
           Element ''div'' [] [''stats-item''] [] []
             [Element ''span'' [] [] [] [] [TextNode ''Total tasks:''],
              Element ''span'' [] [''stats-value''] [] [] [TextNode (decimal (length list))]]]])"
  by (simp add: hook_todoComponent_def createElement_def and_then_def classList_add_def
      ascii_whitespace_def map_each_hook_item empty_message_eq)

lemma no_placeholder_in_rows:
  "count_nodes is_placeholder_row (projr (array_item x)) = 0"
  "count_nodes is_placeholder_row (projr (object_item x)) = 0"
  "count_nodes is_placeholder_row (projr (hook_item x)) = 0"
  "count_nodes (has_class ''empty-message'') (projr (array_item x)) = 0"
  "count_nodes (has_class ''empty-message'') (projr (object_item x)) = 0"
  "count_nodes (has_class ''empty-message'') (projr (hook_item x)) = 0"
  by (cases x, simp add: array_item_eq object_item_eq hook_item_eq)+

text \<open>
  Claim C8, as the code has it. In the three programs that have a placeholder
  (both programs of part_002 and part_001), the view of the empty list contains
  exactly one placeholder row and no delete or edit control, and the view of a
  non-empty list contains no placeholder row (no element of class
  \<open>empty-message\<close> at all). The view of src/index.js never contains one.
\<close>

theorem placeholder_iff_empty:
  "(\<exists>c. array_todoComponent [] = Inr c \<and>
      count_in is_placeholder_row (component_nodes c) = 1 \<and>
      count_in is_delete_control (component_nodes c) = 0 \<and>
      count_in is_edit_control (component_nodes c) = 0) \<and>
   (\<exists>c. object_todoComponent [] cursor = Inr c \<and>
      count_in is_placeholder_row (component_nodes c) = 1 \<and>
      count_in is_delete_control (component_nodes c) = 0 \<and>
      count_in is_edit_control (component_nodes c) = 0) \<and>
   (\<exists>c. hook_todoComponent [] cursor = Inr c \<and>
      count_in is_placeholder_row (component_nodes c) = 1 \<and>
      count_in is_delete_control (component_nodes c) = 0 \<and>
      count_in is_edit_control (component_nodes c) = 0) \<and>
   (list \<noteq> [] \<longrightarrow>
      (\<exists>c. array_todoComponent list = Inr c \<and>
         count_in is_placeholder_row (component_nodes c) = 0 \<and>
         count_in (has_class ''empty-message'') (component_nodes c) = 0) \<and>
      (\<exists>c. object_todoComponent list cursor = Inr c \<and>
         count_in is_placeholder_row (component_nodes c) = 0 \<and>
         count_in (has_class ''empty-message'') (component_nodes c) = 0) \<and>
      (\<exists>c. hook_todoComponent list cursor = Inr c \<and>
         count_in is_placeholder_row (component_nodes c) = 0 \<and>
         count_in (has_class ''empty-message'') (component_nodes c) = 0)) \<and>
   (\<exists>p. index_todoComponent list = Inr p \<and>
      count_in is_placeholder_row (parts_nodes p) = 0 \<and>
      count_in (has_class ''empty-message'') (parts_nodes p) = 0)"
proof (intro conjI impI)
  show "\<exists>c. array_todoComponent [] = Inr c \<and>
      count_in is_placeholder_row (component_nodes c) = 1 \<and>
      count_in is_delete_control (component_nodes c) = 0 \<and>
      count_in is_edit_control (component_nodes c) = 0"
    by (simp add: array_todoComponent_eq count_in_def is_delete_control_def
        is_edit_control_def starts_with_def)
  show "\<exists>c. object_todoComponent [] cursor = Inr c \<and>
      count_in is_placeholder_row (component_nodes c) = 1 \<and>
      count_in is_delete_control (component_nodes c) = 0 \<and>
      count_in is_edit_control (component_nodes c) = 0"
    by (simp add: object_todoComponent_eq count_in_def is_delete_control_def
        is_edit_control_def starts_with_def)
  show "\<exists>c. hook_todoComponent [] cursor = Inr c \<and>
      count_in is_placeholder_row (component_nodes c) = 1 \<and>
      count_in is_delete_control (component_nodes c) = 0 \<and>
      count_in is_edit_control (component_nodes c) = 0"
    by (simp add: hook_todoComponent_eq count_in_def is_delete_control_def
        is_edit_control_def starts_with_def)
  show "\<exists>p. index_todoComponent list = Inr p \<and>
      count_in is_placeholder_row (parts_nodes p) = 0 \<and>
      count_in (has_class ''empty-message'') (parts_nodes p) = 0"
    by (simp add: index_todoComponent_eq count_in_def no_placeholder_in_rows)
next
  assume "list \<noteq> []"
  then show "\<exists>c. array_todoComponent list = Inr c \<and>
         count_in is_placeholder_row (component_nodes c) = 0 \<and>
         count_in (has_class ''empty-message'') (component_nodes c) = 0"
    by (simp add: array_todoComponent_eq count_in_def no_placeholder_in_rows)
next
  assume "list \<noteq> []"
  then show "\<exists>c. object_todoComponent list cursor = Inr c \<and>
         count_in is_placeholder_row (component_nodes c) = 0 \<and>
         count_in (has_class ''empty-message'') (component_nodes c) = 0"
    by (simp add: object_todoComponent_eq count_in_def no_placeholder_in_rows)
next
  assume "list \<noteq> []"
  then show "\<exists>c. hook_todoComponent list cursor = Inr c \<and>
         count_in is_placeholder_row (component_nodes c) = 0 \<and>
         count_in (has_class ''empty-message'') (component_nodes c) = 0"
    by (simp add: hook_todoComponent_eq count_in_def no_placeholder_in_rows)
qed

theorem placeholder_iff_empty_witness:
  "(\<exists>c. array_todoComponent [] = Inr c \<and> count_in is_placeholder_row (component_nodes c) = 1) \<and>
   (\<exists>c. object_todoComponent [] (- 1) = Inr c \<and> count_in is_placeholder_row (component_nodes c) = 1) \<and>
   (\<exists>c. hook_todoComponent [] (- 1) = Inr c \<and> count_in is_placeholder_row (component_nodes c) = 1) \<and>
   [''Buy milk'', ''Walk dog''] \<noteq> [] \<and>
   (\<exists>c. array_todoComponent [''Buy milk'', ''Walk dog''] = Inr c \<and>
      count_in is_placeholder_row (component_nodes c) = 0) \<and>
   (\<exists>c. object_todoComponent [''Buy milk'', ''Walk dog''] (- 1) = Inr c \<and>
      count_in is_placeholder_row (component_nodes c) = 0) \<and>
   (\<exists>c. hook_todoComponent [''Buy milk'', ''Walk dog''] (- 1) = Inr c \<and>
      count_in is_placeholder_row (component_nodes c) = 0)"
  using placeholder_iff_empty [of "- 1" "[''Buy milk'', ''Walk dog'']"]
  by simp blast

text \<open>The claim as written fails on src/index.js: for the empty list its view and
  the page it renders have no placeholder row.\<close>

theorem index_view_without_placeholder:
  "(\<exists>p. index_todoComponent [] = Inr p \<and>
      count_in is_placeholder_row (parts_nodes p) = 0) \<and>
   (\<exists>tree. index_render [] (Some []) = (None, Some [tree]) \<and>
      count_nodes is_placeholder_row tree = 0 \<and>
      count_nodes (has_class ''empty-message'') tree = 0)"
  by (simp add: index_todoComponent_eq index_render_def count_in_def indexed_def)

section \<open>What a render does to the document\<close>

text \<open>\<open>document.querySelector('#' + id)\<close> below a node: the first element in document
  order whose id attribute is the id.\<close>

fun query_id :: "string \<Rightarrow> node \<Rightarrow> node option"
  and query_ids :: "string \<Rightarrow> node list \<Rightarrow> node option" where
  "query_id i (TextNode s) = None"
| "query_id i (Element tag attrs classes style data kids) =
     (if map_of attrs ''id'' = Some i then Some (Element tag attrs classes style data kids)
      else query_ids i kids)"
| "query_ids i [] = None"
| "query_ids i (n # ns) =
     (case query_id i n of Some found \<Rightarrow> Some found | None \<Rightarrow> query_ids i ns)"

lemma attach_children_Nil [simp]: "attach_children parent [] = parent"
  by (simp add: attach_children_def)

lemma attach_children_Cons_Element [simp]:
  "attach_children (Element tag attrs classes style data kids)
     (Element tag' attrs' classes' style' data' kids' # ns) =
   attach_children
     (Element tag attrs classes style data
        (kids @ [Element tag' attrs' classes' style' data' kids'])) ns"
  by (simp add: attach_children_def)

text \<open>The item texts a tree shows: the text leaves of its elements of class
  \<open>text\<close>, in document order.\<close>

fun leaf_text :: "node \<Rightarrow> string list" where
  "leaf_text (TextNode s) = [s]"
| "leaf_text (Element tag attrs classes style data kids) = []"

fun shown_texts :: "node \<Rightarrow> string list" where
  "shown_texts (TextNode s) = []"
| "shown_texts (Element tag attrs classes style data kids) =
     (if ''text'' \<in> set classes then concat (map leaf_text kids) else []) @
     concat (map shown_texts kids)"

text \<open>The rows as trees, over the list paired with its indices.\<close>

lemma array_rows_eq:
  "map (projr \<circ> array_item) (indexed list) =
     map (\<lambda>(todo, index).
        Element ''li'' [] [''todo-item''] [] []
          [Element ''span'' [(''id'', todo_id index)] [''text''] [] [] [TextNode todo],
           Element ''button'' [(''id'', delete_id index), (''type'', ''button'')]
             [''delete-button''] [] [] [TextNode ''Delete'']])
       (zip list [0..<length list])"
  by (auto simp: indexed_def array_item_eq)

lemma object_rows_eq:
  "map (projr \<circ> object_item) (indexed list) =
     map (\<lambda>(todo, index).
        Element ''li'' [] [''todo-item''] [] []
          [Element ''span'' [(''id'', todo_id index)] [''text''] [] [] [TextNode todo],
           Element ''button'' [(''id'', delete_id index), (''type'', ''button'')]
             [''delete-button''] [] [] [TextNode ''Delete''],
           Element ''button'' [(''id'', edit_id index), (''type'', ''button'')]
             [''edit-button''] [] [] [TextNode ''Edit'']])
       (zip list [0..<length list])"
  by (auto simp: indexed_def object_item_eq)

lemma hook_rows_eq:
  "map (projr \<circ> hook_item) (indexed list) =
     map (\<lambda>(todo, index).
        Element ''li'' [] [''todo-item''] [] []
          [Element ''span'' [(''id'', todo_id index)] [''text''] [] [] [TextNode todo],
           Element ''div'' [] [''button-group''] [] []
             [Element ''button'' [(''id'', edit_id index), (''type'', ''button'')]
                [''edit-button''] [] [] [TextNode ''Edit''],
              Element ''button'' [(''id'', delete_id index), (''type'', ''button'')]
                [''delete-button''] [] [] [TextNode ''Delete'']]])
       (zip list [0..<length list])"
  by (auto simp: indexed_def hook_item_eq)

lemma shown_texts_rows:
  "concat (map (shown_texts \<circ> (projr \<circ> array_item)) (indexed list)) = list"
  "concat (map (shown_texts \<circ> (projr \<circ> object_item)) (indexed list)) = list"
  "concat (map (shown_texts \<circ> (projr \<circ> hook_item)) (indexed list)) = list"
proof -
  have fst_rows: "concat (map (\<lambda>x. [fst x]) (indexed list)) = list"
    by (simp add: indexed_def concat_map_singleton)
  have a: "map (shown_texts \<circ> (projr \<circ> array_item)) (indexed list) =
      map (\<lambda>x. [fst x]) (indexed list)"
    by (auto simp: array_item_eq)
  show "concat (map (shown_texts \<circ> (projr \<circ> array_item)) (indexed list)) = list"
    unfolding a by (rule fst_rows)
  have b: "map (shown_texts \<circ> (projr \<circ> object_item)) (indexed list) =
      map (\<lambda>x. [fst x]) (indexed list)"
    by (auto simp: object_item_eq)
  show "concat (map (shown_texts \<circ> (projr \<circ> object_item)) (indexed list)) = list"
    unfolding b by (rule fst_rows)
  have c: "map (shown_texts \<circ> (projr \<circ> hook_item)) (indexed list) =
      map (\<lambda>x. [fst x]) (indexed list)"
    by (auto simp: hook_item_eq)
  show "concat (map (shown_texts \<circ> (projr \<circ> hook_item)) (indexed list)) = list"
    unfolding c by (rule fst_rows)
qed

lemma index_render_present:
  "index_render list (Some previous) =
     (None, Some
       [Element ''div'' [(''id'', ''todo-container'')] [''todo-container''] [] []
          [Element ''h1'' [] [''todo-title''] [] [] [TextNode ''Todo List''],
           Element ''input''
             [(''id'', ''todo-input''), (''type'', ''text''),
              (''placeholder'', ''Add a new todo...'')]
             [''todo-input''] [] [] [],
           Element ''button'' [(''id'', ''add-todo-button''), (''type'', ''button'')]
             [''todo-button''] [] [] [TextNode ''Add Todo''],
           Element ''ul'' [(''id'', ''todo-list'')] [''todo-list''] [] []
             (map (projr \<circ> array_item) (indexed list))]])"
  by (simp add: index_render_def index_todoComponent_eq)

lemma array_render_present:
  "array_render list (Some previous) =
     (None, Some
       [Element ''div'' [(''id'', ''todo-container'')] [''todo-container''] [] []
          [Element ''h1'' [] [''todo-title''] [] [] [TextNode ''Todo List''],
           Element ''input''
             [(''id'', ''todo-input''), (''type'', ''text''),
              (''placeholder'', ''Add a new todo...'')]
             [''todo-input''] [] [] [],
           Element ''button'' [(''id'', ''add-todo-button''), (''type'', ''button'')]
             [''todo-button''] [] [] [TextNode ''Add Todo''],
           Element ''ul'' [(''id'', ''todo-list'')] [''todo-list''] [] []
             (if list = []
              then [Element ''li'' [] [''empty-message''] [] []
                      [TextNode ''No todos available. Add a new todo!'']]
              else map (projr \<circ> array_item) (indexed list))]])"
  by (simp add: array_render_def array_todoComponent_eq)

lemma object_render_present:
  "object_render list cursor (Some previous) =
     (None, Some
       [Element ''div'' [(''id'', ''todo-container'')] [''todo-container''] [] []
          [Element ''h1'' [] [''todo-title''] [] [] [TextNode ''Todo List''],
           Element ''input''
             [(''id'', ''todo-input''), (''type'', ''text''),
              (''placeholder'',
                 if cursor \<noteq> - 1 then ''Edit your todo...'' else ''Add a new todo...'')]
             [''todo-input''] [] [] [],
           Element ''button'' [(''id'', ''add-todo-button''), (''type'', ''button'')]
             [''todo-button''] [] []
             [TextNode (if cursor \<noteq> - 1 then ''Update Todo'' else ''Add Todo'')],
           Element ''ul'' [(''id'', ''todo-list'')] [''todo-list''] [] []
             (if list = []
              then [Element ''li'' [] [''empty-message''] [] []
                      [TextNode ''No todos available. Add a new todo!'']]
              else map (projr \<circ> object_item) (indexed list))]])"
  by (simp add: object_render_def render_component_def object_todoComponent_eq)

lemma hook_render_present:
  "hook_render list cursor (Some previous) =
     (None, Some
       [Element ''div'' [(''id'', ''todo-container'')] [''todo-container''] [] []
          [Element ''h1'' [] [''todo-title''] [] [] [TextNode ''Todo List''],
           Element ''div'' [] [''input-section''] [] []
             [Element ''input''
                [(''id'', ''todo-input''), (''type'', ''text''),
                 (''placeholder'',
                    if cursor \<noteq> - 1 then ''Edit your todo...'' else ''Add a new todo...'')]
                [''todo-input''] [] [] [],
              Element ''button'' [(''id'', ''add-todo-button''), (''type'', ''button'')]
                [''todo-button''] [] []
                [TextNode (if cursor \<noteq> - 1 then ''Update Todo'' else ''Add Todo'')]],
           Element ''ul'' [(''id'', ''todo-list'')] [''todo-list''] [] []
             (if list = []
              then [Element ''li'' [] [''empty-message''] [] []
                      [TextNode ''No todos available. Add a new todo!'']]
              else map (projr \<circ> hook_item) (indexed list)),
           Element ''div'' [] [''stats-section''] [] []
             [Element ''div'' [] [''stats-title''] [] [] [TextNode ''Statistics''],
              Element ''div'' [] [''stats-item''] [] []
                [Element ''span'' [] [] [] [] [TextNode ''Total tasks:''],
                 Element ''span'' [] [''stats-value''] [] []
                   [TextNode (decimal (length list))]]]]])"
  by (simp add: hook_render_def render_component_def hook_todoComponent_eq)

text \<open>
  Claim C7. Every \<open>render\<close> on a document without the element \<open>root\<close> ends in
  an error and leaves the document as it was, with nothing attached: the explicit
  Error of the later programs, the TypeError of the runtime in src/index.js. With
  the element present, whatever its content was, render ends without error and
  the content of \<open>root\<close> is one tree and nothing else: the container that
  \<open>todoComponent()\<close> has just returned with its parts attached in order. The
  tree is written out below for each program, and the item texts it shows are the
  current list.
\<close>

theorem render_needs_root:
  "index_render list None = (Some RuntimeTypeError, None) \<and>
   array_render list None = (Some (Error ''Root element not found in the DOM''), None) \<and>
   object_render list cursor None = (Some (Error ''Root element not found in the DOM''), None) \<and>
   hook_render list cursor None = (Some (Error ''Root element not found in the DOM''), None) \<and>
   (\<exists>todoContainer title input addButton todoList items.
      index_todoComponent list = Inr (Parts todoContainer title input addButton todoList items) \<and>
      index_render list (Some previous) =
        (None, Some [append_all todoContainer
                       [title, input, addButton, append_all todoList items]])) \<and>
   (\<exists>box parts. array_todoComponent list = Inr (Composite box parts) \<and>
      array_render list (Some previous) = (None, Some [attach_children box parts])) \<and>
   (\<exists>box parts. object_todoComponent list cursor = Inr (Composite box parts) \<and>
      object_render list cursor (Some previous) = (None, Some [attach_children box parts])) \<and>
   (\<exists>box parts. hook_todoComponent list cursor = Inr (Composite box parts) \<and>
      hook_render list cursor (Some previous) = (None, Some [attach_children box parts])) \<and>
   index_render list (Some previous) =
     (None, Some
       [Element ''div'' [(''id'', ''todo-container'')] [''todo-container''] [] []
          [Element ''h1'' [] [''todo-title''] [] [] [TextNode ''Todo List''],
           Element ''input''
             [(''id'', ''todo-input''), (''type'', ''text''),
              (''placeholder'', ''Add a new todo...'')]
             [''todo-input''] [] [] [],
           Element ''button'' [(''id'', ''add-todo-button''), (''type'', ''button'')]
             [''todo-button''] [] [] [TextNode ''Add Todo''],
           Element ''ul'' [(''id'', ''todo-list'')] [''todo-list''] [] []
             (map (\<lambda>(todo, index).
                Element ''li'' [] [''todo-item''] [] []
                  [Element ''span'' [(''id'', ''todo-'' @ decimal index)] [''text''] [] []
                     [TextNode todo],
                   Element ''button''
                     [(''id'', ''delete-todo-'' @ decimal index), (''type'', ''button'')]
                     [''delete-button''] [] [] [TextNode ''Delete'']])
               (zip list [0..<length list]))]]) \<and>
   array_render list (Some previous) =
     (None, Some
       [Element ''div'' [(''id'', ''todo-container'')] [''todo-container''] [] []
          [Element ''h1'' [] [''todo-title''] [] [] [TextNode ''Todo List''],
           Element ''input''
             [(''id'', ''todo-input''), (''type'', ''text''),
              (''placeholder'', ''Add a new todo...'')]
             [''todo-input''] [] [] [],
           Element ''button'' [(''id'', ''add-todo-button''), (''type'', ''button'')]
             [''todo-button''] [] [] [TextNode ''Add Todo''],
           Element ''ul'' [(''id'', ''todo-list'')] [''todo-list''] [] []
             (if list = []
              then [Element ''li'' [] [''empty-message''] [] []
                      [TextNode ''No todos available. Add a new todo!'']]
              else map (\<lambda>(todo, index).
                Element ''li'' [] [''todo-item''] [] []
                  [Element ''span'' [(''id'', ''todo-'' @ decimal index)] [''text''] [] []
                     [TextNode todo],
                   Element ''button''
                     [(''id'', ''delete-todo-'' @ decimal index), (''type'', ''button'')]
                     [''delete-button''] [] [] [TextNode ''Delete'']])
               (zip list [0..<length list]))]]) \<and>
   object_render list cursor (Some previous) =
     (None, Some
       [Element ''div'' [(''id'', ''todo-container'')] [''todo-container''] [] []
          [Element ''h1'' [] [''todo-title''] [] [] [TextNode ''Todo List''],
           Element ''input''
             [(''id'', ''todo-input''), (''type'', ''text''),
              (''placeholder'',
                 if cursor \<noteq> - 1 then ''Edit your todo...'' else ''Add a new todo...'')]
             [''todo-input''] [] [] [],
           Element ''button'' [(''id'', ''add-todo-button''), (''type'', ''button'')]
             [''todo-button''] [] []
             [TextNode (if cursor \<noteq> - 1 then ''Update Todo'' else ''Add Todo'')],
           Element ''ul'' [(''id'', ''todo-list'')] [''todo-list''] [] []
             (if list = []
              then [Element ''li'' [] [''empty-message''] [] []
                      [TextNode ''No todos available. Add a new todo!'']]
              else map (\<lambda>(todo, index).
                Element ''li'' [] [''todo-item''] [] []
                  [Element ''span'' [(''id'', ''todo-'' @ decimal index)] [''text''] [] []
                     [TextNode todo],
                   Element ''button''
                     [(''id'', ''delete-todo-'' @ decimal index), (''type'', ''button'')]
                     [''delete-button''] [] [] [TextNode ''Delete''],
                   Element ''button''
                     [(''id'', ''edit-todo-'' @ decimal index), (''type'', ''button'')]
                     [''edit-button''] [] [] [TextNode ''Edit'']])
               (zip list [0..<length list]))]]) \<and>
   hook_render list cursor (Some previous) =
     (None, Some
       [Element ''div'' [(''id'', ''todo-container'')] [''todo-container''] [] []
          [Element ''h1'' [] [''todo-title''] [] [] [TextNode ''Todo List''],
           Element ''div'' [] [''input-section''] [] []
             [Element ''input''
                [(''id'', ''todo-input''), (''type'', ''text''),
                 (''placeholder'',
                    if cursor \<noteq> - 1 then ''Edit your todo...'' else ''Add a new todo...'')]
                [''todo-input''] [] [] [],
              Element ''button'' [(''id'', ''add-todo-button''), (''type'', ''button'')]
                [''todo-button''] [] []
                [TextNode (if cursor \<noteq> - 1 then ''Update Todo'' else ''Add Todo'')]],
           Element ''ul'' [(''id'', ''todo-list'')] [''todo-list''] [] []
             (if list = []
              then [Element ''li'' [] [''empty-message''] [] []
                      [TextNode ''No todos available. Add a new todo!'']]
              else map (\<lambda>(todo, index).
                Element ''li'' [] [''todo-item''] [] []
                  [Element ''span'' [(''id'', ''todo-'' @ decimal index)] [''text''] [] []
                     [TextNode todo],
                   Element ''div'' [] [''button-group''] [] []
                     [Element ''button''
                        [(''id'', ''edit-todo-'' @ decimal index), (''type'', ''button'')]
                        [''edit-button''] [] [] [TextNode ''Edit''],
                      Element ''button''
                        [(''id'', ''delete-todo-'' @ decimal index), (''type'', ''button'')]
                        [''delete-button''] [] [] [TextNode ''Delete'']]])
               (zip list [0..<length list])),
           Element ''div'' [] [''stats-section''] [] []
             [Element ''div'' [] [''stats-title''] [] [] [TextNode ''Statistics''],
              Element ''div'' [] [''stats-item''] [] []
                [Element ''span'' [] [] [] [] [TextNode ''Total tasks:''],
                 Element ''span'' [] [''stats-value''] [] []
                   [TextNode (decimal (length list))]]]]]) \<and>
   (\<exists>tree. index_render list (Some previous) = (None, Some [tree]) \<and> shown_texts tree = list) \<and>
   (\<exists>tree. array_render list (Some previous) = (None, Some [tree]) \<and> shown_texts tree = list) \<and>
   (\<exists>tree. object_render list cursor (Some previous) = (None, Some [tree]) \<and>
      shown_texts tree = list) \<and>
   (\<exists>tree. hook_render list cursor (Some previous) = (None, Some [tree]) \<and>
      shown_texts tree = list)"
proof -
  have absent:
    "index_render list None = (Some RuntimeTypeError, None)"
    "array_render list None = (Some (Error ''Root element not found in the DOM''), None)"
    "object_render list cursor None = (Some (Error ''Root element not found in the DOM''), None)"
    "hook_render list cursor None = (Some (Error ''Root element not found in the DOM''), None)"
    by (simp_all add: index_render_def index_todoComponent_eq array_render_def
        object_render_def hook_render_def render_component_def)
  have index_built: "\<exists>todoContainer title input addButton todoList items.
      index_todoComponent list = Inr (Parts todoContainer title input addButton todoList items) \<and>
      index_render list (Some previous) =
        (None, Some [append_all todoContainer
                       [title, input, addButton, append_all todoList items]])"
    by (simp add: index_render_def index_todoComponent_eq)
  have array_built: "\<exists>box parts. array_todoComponent list = Inr (Composite box parts) \<and>
      array_render list (Some previous) = (None, Some [attach_children box parts])"
    by (simp add: array_render_def array_todoComponent_eq)
  have object_built: "\<exists>box parts. object_todoComponent list cursor = Inr (Composite box parts) \<and>
      object_render list cursor (Some previous) = (None, Some [attach_children box parts])"
    by (simp add: object_render_def render_component_def object_todoComponent_eq)
  have hook_built: "\<exists>box parts. hook_todoComponent list cursor = Inr (Composite box parts) \<and>
      hook_render list cursor (Some previous) = (None, Some [attach_children box parts])"
    by (simp add: hook_render_def render_component_def hook_todoComponent_eq)
  have index_texts: "\<exists>tree. index_render list (Some previous) = (None, Some [tree]) \<and>
      shown_texts tree = list"
    by (simp add: index_render_present shown_texts_rows)
  have array_texts: "\<exists>tree. array_render list (Some previous) = (None, Some [tree]) \<and>
      shown_texts tree = list"
    by (simp add: array_render_present shown_texts_rows)
  have object_texts: "\<exists>tree. object_render list cursor (Some previous) = (None, Some [tree]) \<and>
      shown_texts tree = list"
    by (simp add: object_render_present shown_texts_rows)
  have hook_texts: "\<exists>tree. hook_render list cursor (Some previous) = (None, Some [tree]) \<and>
      shown_texts tree = list"
    by (simp add: hook_render_present shown_texts_rows)
  note trees =
    index_render_present [of list previous, unfolded array_rows_eq todo_id_def delete_id_def]
    array_render_present [of list previous, unfolded array_rows_eq todo_id_def delete_id_def]
    object_render_present [of list cursor previous,
      unfolded object_rows_eq todo_id_def delete_id_def edit_id_def]
    hook_render_present [of list cursor previous,
      unfolded hook_rows_eq todo_id_def delete_id_def edit_id_def]
  from absent index_built array_built object_built hook_built trees
    index_texts array_texts object_texts hook_texts
  show ?thesis by (intro conjI)
qed

theorem render_needs_root_witness:
  "index_render [''Buy milk''] None = (Some RuntimeTypeError, None) \<and>
   hook_render [''Buy milk''] 0 None = (Some (Error ''Root element not found in the DOM''), None) \<and>
   index_render [''Buy milk''] (Some [TextNode ''stale'', TextNode ''older'']) =
     (None, Some
       [Element ''div'' [(''id'', ''todo-container'')] [''todo-container''] [] []
          [Element ''h1'' [] [''todo-title''] [] [] [TextNode ''Todo List''],
           Element ''input''
             [(''id'', ''todo-input''), (''type'', ''text''),
              (''placeholder'', ''Add a new todo...'')]
             [''todo-input''] [] [] [],
           Element ''button'' [(''id'', ''add-todo-button''), (''type'', ''button'')]
             [''todo-button''] [] [] [TextNode ''Add Todo''],
           Element ''ul'' [(''id'', ''todo-list'')] [''todo-list''] [] []
             [Element ''li'' [] [''todo-item''] [] []
                [Element ''span'' [(''id'', ''todo-0'')] [''text''] [] [] [TextNode ''Buy milk''],
                 Element ''button'' [(''id'', ''delete-todo-0''), (''type'', ''button'')]
                   [''delete-button''] [] [] [TextNode ''Delete'']]]]]) \<and>
   (\<exists>tree. hook_render [''Buy milk''] 0 (Some [TextNode ''stale'', TextNode ''older'']) =
      (None, Some [tree]) \<and> shown_texts tree = [''Buy milk''])"
  using render_needs_root [of "[''Buy milk'']" 0 "[TextNode ''stale'', TextNode ''older'']"]
  by (simp add: decimal.simps digit_def)

text \<open>
  The \<open>render\<close> of the click handlers (section "The page as the click handlers
  see it") rests on this: after a render with the root present the document's
  \<open>#todo-input\<close> is an \<open>input\<close> element that \<open>createElement\<close> has just made, with
  an id, a type and a placeholder and no value.
\<close>

lemma render_makes_new_input:
  "(\<exists>tree attrs. index_render list (Some previous) = (None, Some [tree]) \<and>
      query_id ''todo-input'' tree = Some (Element ''input'' attrs [''todo-input''] [] [] []) \<and>
      map_of attrs ''value'' = None) \<and>
   (\<exists>tree attrs. array_render list (Some previous) = (None, Some [tree]) \<and>
      query_id ''todo-input'' tree = Some (Element ''input'' attrs [''todo-input''] [] [] []) \<and>
      map_of attrs ''value'' = None) \<and>
   (\<exists>tree attrs. object_render list cursor (Some previous) = (None, Some [tree]) \<and>
      query_id ''todo-input'' tree = Some (Element ''input'' attrs [''todo-input''] [] [] []) \<and>
      map_of attrs ''value'' = None) \<and>
   (\<exists>tree attrs. hook_render list cursor (Some previous) = (None, Some [tree]) \<and>
      query_id ''todo-input'' tree = Some (Element ''input'' attrs [''todo-input''] [] [] []) \<and>
      map_of attrs ''value'' = None)"
  by (simp add: index_render_def index_todoComponent_eq array_render_def array_todoComponent_eq
      object_render_def hook_render_def render_component_def object_todoComponent_eq
      hook_todoComponent_eq)

end
